theory Spec2Isabelle
  imports
    Complex_Main
    "HOL-Library.AList"
    "HOL-Library.Char_ord"
    "HOL-Library.List_Lexorder"
    "HOL-Library.Product_Lexorder"
    "HOL-Library.Multiset"
begin

section \<open>Data frames\<close>

text \<open>
  Both dashboards are scripts over one table. The table is modelled as the data frame
  that \<^verbatim>\<open>pd.read_csv(..., parse_dates=["created_at"])\<close> hands to the script: a header
  and a list of rows. A cell is a floating-point number, a 64-bit integer, a string, a
  timestamp or missing. A floating-point number \<open>Num x\<close> is a real number (the value
  without rounding; the tables hold no infinities), an integer \<open>Int64 k\<close> is a field of a
  column that the library types as int64, a timestamp is the count of nanoseconds since
  1970-01-01 00:00, and \<open>NaN\<close> stands for every missing value (NaN, NaT, None).
\<close>

datatype cell = Num real | Int64 int | Str string | Time int | NaN

datatype error = KeyError "string list" | TypeError | AttributeError | ValueError

type_synonym row = "(string \<times> cell) list"

record frame =
  columns :: "string list"
  rows :: "row list"

text \<open>The cell of a row under a column label; a label the row lacks reads as missing.\<close>

definition cell_at :: "row \<Rightarrow> string \<Rightarrow> cell" where
  "cell_at r k = (case map_of r k of None \<Rightarrow> NaN | Some c \<Rightarrow> c)"

text \<open>Group keys are sorted; cells are ordered numbers, strings, timestamps, missing.\<close>

fun cell_rank :: "cell \<Rightarrow> nat \<times> real \<times> string \<times> int" where
  "cell_rank (Num x) = (0, x, [], 0)"
| "cell_rank (Int64 k) = (0, of_int k, [], 1)"
| "cell_rank (Str s) = (1, 0, s, 0)"
| "cell_rank (Time t) = (2, 0, [], t)"
| "cell_rank NaN = (3, 0, [], 0)"

instantiation cell :: linorder
begin

definition less_eq_cell :: "cell \<Rightarrow> cell \<Rightarrow> bool" where
  "less_eq_cell a b \<longleftrightarrow> cell_rank a \<le> cell_rank b"

definition less_cell :: "cell \<Rightarrow> cell \<Rightarrow> bool" where
  "less_cell a b \<longleftrightarrow> cell_rank a < cell_rank b"

instance
proof -
  have inj: "a = b" if "cell_rank a = cell_rank b" for a b
    using that by (cases a; cases b) auto
  show "OFCLASS(cell, linorder_class)"
    by standard (auto simp: less_eq_cell_def less_cell_def dest: inj)
qed

end

subsection \<open>Errors and statements\<close>

definition andthen :: "error + 'a \<Rightarrow> ('a \<Rightarrow> error + 'b) \<Rightarrow> error + 'b" where
  "andthen m f = (case m of Inl e \<Rightarrow> Inl e | Inr x \<Rightarrow> f x)"

text \<open>A block of statements on the frame, run in order; the first exception ends it.\<close>

fun run :: "(frame \<Rightarrow> error + frame) list \<Rightarrow> frame \<Rightarrow> error + frame" where
  "run [] df = Inr df"
| "run (s # ss) df = (case s df of Inl e \<Rightarrow> Inl e | Inr df' \<Rightarrow> run ss df')"

text \<open>An elementwise operation on a column fails when it fails on one of its cells.\<close>

fun smap :: "(cell \<Rightarrow> error + cell) \<Rightarrow> cell list \<Rightarrow> error + cell list" where
  "smap f [] = Inr []"
| "smap f (c # cs) =
     (case f c of Inl e \<Rightarrow> Inl e
      | Inr d \<Rightarrow> (case smap f cs of Inl e \<Rightarrow> Inl e | Inr ds \<Rightarrow> Inr (d # ds)))"

text \<open>\<^verbatim>\<open>df[k]\<close>: the column, or KeyError when the header lacks the label.\<close>

definition getcol :: "frame \<Rightarrow> string \<Rightarrow> error + cell list" where
  "getcol df k =
     (if k \<in> set (columns df) then Inr (map (\<lambda>r. cell_at r k) (rows df))
      else Inl (KeyError [k]))"

text \<open>
  \<^verbatim>\<open>df[k] = s\<close>: an existing column is replaced where it stands, a new one is appended.
\<close>

definition setcol :: "string \<Rightarrow> cell list \<Rightarrow> frame \<Rightarrow> frame" where
  "setcol k s df =
     \<lparr>columns = (if k \<in> set (columns df) then columns df else columns df @ [k]),
      rows = map2 (\<lambda>r v. AList.update k v r) (rows df) s\<rparr>"

text \<open>
  \<^verbatim>\<open>df[dst] = F(df[src])\<close> for an operation \<open>F\<close> on the whole column, and the
  elementwise cases \<^verbatim>\<open>df[dst] = f(df[src])\<close> and \<^verbatim>\<open>df[dst] = f(df[src1], df[src2])\<close>.
\<close>

definition assign_series ::
  "string \<Rightarrow> string \<Rightarrow> (cell list \<Rightarrow> error + cell list) \<Rightarrow> frame \<Rightarrow> error + frame" where
  "assign_series dst src F df =
     andthen (getcol df src) (\<lambda>s. andthen (F s) (\<lambda>v. Inr (setcol dst v df)))"

definition assign :: "string \<Rightarrow> string \<Rightarrow> (cell \<Rightarrow> error + cell) \<Rightarrow> frame \<Rightarrow> error + frame" where
  "assign dst src f df =
     andthen (getcol df src) (\<lambda>s. andthen (smap f s) (\<lambda>v. Inr (setcol dst v df)))"

definition assign2 ::
  "string \<Rightarrow> string \<Rightarrow> string \<Rightarrow> (cell \<Rightarrow> cell \<Rightarrow> cell) \<Rightarrow> frame \<Rightarrow> error + frame" where
  "assign2 dst src1 src2 f df =
     andthen (getcol df src1) (\<lambda>s1. andthen (getcol df src2) (\<lambda>s2.
       Inr (setcol dst (map2 f s1 s2) df)))"

subsection \<open>Column operations of the library\<close>

definition hour_ns :: int where
  "hour_ns = 3600000000000"

definition day_ns :: int where
  "day_ns = 86400000000000"

definition day_names :: "string list" where
  "day_names =
     [''Monday'', ''Tuesday'', ''Wednesday'', ''Thursday'', ''Friday'', ''Saturday'',
      ''Sunday'']"

text \<open>
  The \<^verbatim>\<open>.dt\<close> accessor exists on timestamp columns only (AttributeError otherwise);
  a missing timestamp stays missing.
\<close>

fun dt_floor_H :: "cell \<Rightarrow> error + cell" where
  "dt_floor_H (Time t) = Inr (Time (t - t mod hour_ns))"
| "dt_floor_H NaN = Inr NaN"
| "dt_floor_H c = Inl AttributeError"

text \<open>1970-01-01 was a Thursday.\<close>

fun dt_day_name :: "cell \<Rightarrow> error + cell" where
  "dt_day_name (Time t) = Inr (Str (day_names ! nat ((t div day_ns + 3) mod 7)))"
| "dt_day_name NaN = Inr NaN"
| "dt_day_name c = Inl AttributeError"

fun dt_hour :: "cell \<Rightarrow> error + cell" where
  "dt_hour (Time t) = Inr (Num (of_int (t div hour_ns mod 24)))"
| "dt_hour NaN = Inr NaN"
| "dt_hour c = Inl AttributeError"

text \<open>
  \<^verbatim>\<open>pd.to_numeric(s, errors="coerce")\<close>, field by field. The conversion of a string
  is the library's; it is the parameter \<open>p\<close>, which reads a string as an integer
  (\<open>Inl\<close>) or as a floating-point number (\<open>Inr\<close>), and a string it rejects becomes
  missing. A timestamp converts to its nanosecond count.
\<close>

fun to_numeric :: "(string \<Rightarrow> (int + real) option) \<Rightarrow> cell \<Rightarrow> cell" where
  "to_numeric p (Num x) = Num x"
| "to_numeric p (Int64 k) = Int64 k"
| "to_numeric p (Str s) =
     (case p s of None \<Rightarrow> NaN | Some (Inl k) \<Rightarrow> Int64 k | Some (Inr x) \<Rightarrow> Num x)"
| "to_numeric p (Time t) = Int64 t"
| "to_numeric p NaN = NaN"

text \<open>
  The converted column is int64 when every field is an integer; one missing or
  floating-point field makes it float64, and its integers become floating-point numbers.
\<close>

fun is_int64 :: "cell \<Rightarrow> bool" where
  "is_int64 (Int64 k) = True"
| "is_int64 c = False"

fun as_float :: "cell \<Rightarrow> cell" where
  "as_float (Int64 k) = Num (of_int k)"
| "as_float c = c"

definition to_numeric_series :: "(string \<Rightarrow> (int + real) option) \<Rightarrow> cell list \<Rightarrow> cell list" where
  "to_numeric_series p s =
     (let cs = map (to_numeric p) s
      in if list_all is_int64 cs then cs else map as_float cs)"

text \<open>Arithmetic in int64 is silent about overflow: the result wraps around.\<close>

definition wrap64 :: "int \<Rightarrow> int" where
  "wrap64 n = (n + 2 ^ 63) mod 2 ^ 64 - 2 ^ 63"

text \<open>
  The product with an integer constant: in int64 for an integer, in floating point for a
  floating-point number; missing stays missing.
\<close>

fun mul_int :: "cell \<Rightarrow> int \<Rightarrow> error + cell" where
  "mul_int (Int64 k) c = Inr (Int64 (wrap64 (k * c)))"
| "mul_int (Num x) c = Inr (Num (x * of_int c))"
| "mul_int NaN c = Inr NaN"
| "mul_int d c = Inl TypeError"

text \<open>
  The product with and the quotient by a floating-point constant are floating-point
  numbers; missing stays missing, a string or timestamp is a TypeError.
\<close>

fun mul_scalar :: "cell \<Rightarrow> real \<Rightarrow> error + cell" where
  "mul_scalar (Num x) k = Inr (Num (x * k))"
| "mul_scalar (Int64 n) k = Inr (Num (of_int n * k))"
| "mul_scalar NaN k = Inr NaN"
| "mul_scalar c k = Inl TypeError"

fun div_scalar :: "cell \<Rightarrow> real \<Rightarrow> error + cell" where
  "div_scalar (Num x) k = Inr (Num (x / k))"
| "div_scalar (Int64 n) k = Inr (Num (of_int n / k))"
| "div_scalar NaN k = Inr NaN"
| "div_scalar c k = Inl TypeError"

definition fillna :: "cell \<Rightarrow> cell \<Rightarrow> cell" where
  "fillna c d = (if c = NaN then d else c)"

text \<open>\<^verbatim>\<open>unique()\<close> keeps the first occurrence of each value, in order of appearance.\<close>

definition unique :: "'a list \<Rightarrow> 'a list" where
  "unique xs = rev (remdups (rev xs))"

definition dropna :: "cell list \<Rightarrow> cell list" where
  "dropna s = filter (\<lambda>c. c \<noteq> NaN) s"

text \<open>\<^verbatim>\<open>isin\<close>: membership of each cell in the given values (a missing cell matches a
  missing value).\<close>

definition isin :: "cell list \<Rightarrow> cell list \<Rightarrow> bool list" where
  "isin s vals = map (\<lambda>c. c \<in> set vals) s"

text \<open>\<^verbatim>\<open>df[mask]\<close>: the rows whose mask entry is true.\<close>

definition mask_rows :: "frame \<Rightarrow> bool list \<Rightarrow> frame" where
  "mask_rows df bs = df\<lparr>rows := map fst (filter snd (zip (rows df) bs))\<rparr>"

text \<open>
  \<^verbatim>\<open>sum()\<close> skips missing values; the sum of none is 0. The energy columns hold numbers
  and missing values only (lemma \<open>loaded_energy_columns_numeric\<close> below), and a cell of
  another kind counts as 0 here. The sum is the exact one: the script adds a column of
  64-bit integers modulo \<open>2^64\<close>, which is the exact sum as long as that fits 64 bits.
\<close>

fun num_val :: "cell \<Rightarrow> real" where
  "num_val (Num x) = x"
| "num_val (Int64 k) = of_int k"
| "num_val c = 0"

definition series_sum :: "cell list \<Rightarrow> real" where
  "series_sum s = sum_list (map num_val s)"

text \<open>\<^verbatim>\<open>nunique()\<close> counts the distinct values that are not missing.\<close>

definition nunique :: "cell list \<Rightarrow> nat" where
  "nunique s = length (remdups (dropna s))"

definition missing :: "string list \<Rightarrow> frame \<Rightarrow> string list" where
  "missing ks df = filter (\<lambda>k. k \<notin> set (columns df)) ks"

definition key_of :: "string list \<Rightarrow> row \<Rightarrow> cell list" where
  "key_of ks r = map (cell_at r) ks"

text \<open>
  \<^verbatim>\<open>df.groupby(ks)\<close>: rows with a missing key are dropped; the groups come in sorted
  key order.
\<close>

definition valid_rows :: "string list \<Rightarrow> frame \<Rightarrow> row list" where
  "valid_rows ks df = filter (\<lambda>r. NaN \<notin> set (key_of ks r)) (rows df)"

definition group_keys :: "string list \<Rightarrow> frame \<Rightarrow> cell list list" where
  "group_keys ks df = sort (remdups (map (key_of ks) (valid_rows ks df)))"

definition group_rows :: "string list \<Rightarrow> frame \<Rightarrow> cell list \<Rightarrow> row list" where
  "group_rows ks df g = filter (\<lambda>r. key_of ks r = g) (valid_rows ks df)"

definition groupby_sum :: "string list \<Rightarrow> string \<Rightarrow> frame \<Rightarrow> error + (cell list \<times> real) list" where
  "groupby_sum ks v df =
     (if missing (ks @ [v]) df \<noteq> [] then Inl (KeyError (missing (ks @ [v]) df))
      else Inr (map (\<lambda>g. (g, series_sum (map (\<lambda>r. cell_at r v) (group_rows ks df g))))
                  (group_keys ks df)))"

definition groupby_nunique :: "string list \<Rightarrow> string \<Rightarrow> frame \<Rightarrow> error + (cell list \<times> nat) list" where
  "groupby_nunique ks v df =
     (if missing (ks @ [v]) df \<noteq> [] then Inl (KeyError (missing (ks @ [v]) df))
      else Inr (map (\<lambda>g. (g, nunique (map (\<lambda>r. cell_at r v) (group_rows ks df g))))
                  (group_keys ks df)))"

text \<open>
  A quotient of the script is a floating-point value that can be infinite: dividing by a
  zero count gives plus or minus infinity by the sign of the dividend, and NaN for 0 / 0.
\<close>

datatype fval = Finite real | PosInf | NegInf | Undefined

definition truediv :: "real \<Rightarrow> nat \<Rightarrow> fval" where
  "truediv x n =
     (if n \<noteq> 0 then Finite (x / real n)
      else if 0 < x then PosInf else if x < 0 then NegInf else Undefined)"

text \<open>Multiplying a quotient by a constant.\<close>

fun times_const :: "fval \<Rightarrow> real \<Rightarrow> fval" where
  "times_const (Finite x) k = Finite (x * k)"
| "times_const PosInf k = (if 0 < k then PosInf else if k < 0 then NegInf else Undefined)"
| "times_const NegInf k = (if 0 < k then NegInf else if k < 0 then PosInf else Undefined)"
| "times_const Undefined k = Undefined"

text \<open>
  \<^verbatim>\<open>sort_values(..., ascending=False)\<close>: largest value first, so plus infinity before
  every number and minus infinity after, and NaN last (equal values keep their order
  here; the library leaves their order open).
\<close>

fun desc_key :: "fval \<Rightarrow> nat \<times> real" where
  "desc_key PosInf = (0, 0)"
| "desc_key (Finite x) = (1, - x)"
| "desc_key NegInf = (2, 0)"
| "desc_key Undefined = (3, 0)"

definition sort_values_desc :: "('k \<times> fval) list \<Rightarrow> ('k \<times> fval) list" where
  "sort_values_desc xs = sort_key (\<lambda>(k, c). desc_key c) xs"

text \<open>
  The quotient of two series aligns them on their index labels; a label without a
  partner gives NaN.
\<close>

definition series_truediv ::
  "(cell list \<times> real) list \<Rightarrow> (cell list \<times> nat) list \<Rightarrow> (cell list \<times> fval) list" where
  "series_truediv s n =
     map (\<lambda>(g, x). (g, case map_of n g of None \<Rightarrow> Undefined | Some c \<Rightarrow> truediv x c)) s"

subsection \<open>Pivot tables\<close>

record pivot_frame =
  p_index :: "cell list"
  p_columns :: "cell list"
  p_data :: "cell list list"

text \<open>
  \<^verbatim>\<open>pivot_table(values=v, index=idx, columns=col, aggfunc="sum")\<close>: the group sums laid
  out with one row per index value and one column per column value, both sorted, and
  missing where a combination has no group. A group key of the two columns has two
  entries, the index value at position 0 and the column value at position 1.
\<close>

definition pivot_table :: "string \<Rightarrow> string \<Rightarrow> string \<Rightarrow> frame \<Rightarrow> error + pivot_frame" where
  "pivot_table v idx col df =
     andthen (groupby_sum [idx, col] v df) (\<lambda>g.
       let ix = sort (remdups (map (\<lambda>(k, x). k ! 0) g));
           cs = sort (remdups (map (\<lambda>(k, x). k ! 1) g))
       in Inr \<lparr>p_index = ix, p_columns = cs,
               p_data = map (\<lambda>h. map (\<lambda>w. case map_of g [h, w] of
                                                 None \<Rightarrow> NaN | Some x \<Rightarrow> Num x) cs) ix\<rparr>)"

definition pivot_fillna :: "real \<Rightarrow> pivot_frame \<Rightarrow> pivot_frame" where
  "pivot_fillna z P = P\<lparr>p_data := map (map (\<lambda>c. fillna c (Num z))) (p_data P)\<rparr>"

text \<open>\<^verbatim>\<open>pivot[names]\<close>: the named columns in the given order; KeyError when one is absent.\<close>

definition pivot_select :: "string list \<Rightarrow> pivot_frame \<Rightarrow> error + pivot_frame" where
  "pivot_select names P =
     (if filter (\<lambda>n. Str n \<notin> set (p_columns P)) names \<noteq> []
      then Inl (KeyError (filter (\<lambda>n. Str n \<notin> set (p_columns P)) names))
      else Inr \<lparr>p_index = p_index P, p_columns = map Str names,
                p_data = map (\<lambda>row. map (\<lambda>n. case map_of (zip (p_columns P) row) (Str n) of
                                                  None \<Rightarrow> NaN | Some c \<Rightarrow> c) names)
                           (p_data P)\<rparr>)"

section \<open>The loaders\<close>

text \<open>\<^verbatim>\<open>load_data\<close> of ai_energy_dashboard_final.py, after the CSV is read.\<close>

definition load_data_final :: "frame \<Rightarrow> error + frame" where
  "load_data_final df = run
     [assign ''hour'' ''created_at'' dt_floor_H,
      assign ''weekday'' ''created_at'' dt_day_name,
      assign ''energy_joules'' ''total_duration'' (\<lambda>c. div_scalar c 1000000000),
      assign ''energy_kwh'' ''energy_joules'' (\<lambda>c. div_scalar c 3600000),
      assign ''co2_kg'' ''energy_kwh'' (\<lambda>c. mul_scalar c 0.475),
      assign ''lightbulb_hours'' ''energy_joules'' (\<lambda>c. div_scalar c (50 * 3600))] df"

text \<open>\<^verbatim>\<open>load_data\<close> of ai_energy_dashboard_scaled_final.py, after the CSV is read.\<close>

definition scale_factor :: int where
  "scale_factor = 50493"

definition load_data_scaled :: "(string \<Rightarrow> (int + real) option) \<Rightarrow> frame \<Rightarrow> error + frame" where
  "load_data_scaled p df = run
     [assign ''hour'' ''created_at'' dt_floor_H,
      assign ''weekday'' ''created_at'' dt_day_name,
      assign_series ''measured_energy_joules'' ''energy_consumption_llm_total''
        (\<lambda>s. smap (\<lambda>c. mul_int c scale_factor) (to_numeric_series p s)),
      assign ''estimated_energy_joules'' ''total_duration'' (\<lambda>c. div_scalar c 1000000000),
      assign2 ''final_energy_joules'' ''measured_energy_joules'' ''estimated_energy_joules''
        fillna,
      assign ''energy_kwh'' ''final_energy_joules'' (\<lambda>c. div_scalar c 3600000),
      assign ''co2_kg'' ''energy_kwh'' (\<lambda>c. mul_scalar c 0.475),
      assign ''lightbulb_hours'' ''final_energy_joules'' (\<lambda>c. div_scalar c (50 * 3600))] df"

section \<open>The script bodies\<close>

subsection \<open>Sidebar options and the filter\<close>

definition model_options :: "frame \<Rightarrow> error + cell list" where
  "model_options df = andthen (getcol df ''model_name'') (\<lambda>s. Inr (unique s))"

definition device_options :: "frame \<Rightarrow> error + cell list" where
  "device_options df = andthen (getcol df ''device'') (\<lambda>s. Inr (unique (dropna s)))"

definition df_filtered :: "frame \<Rightarrow> cell list \<Rightarrow> cell list \<Rightarrow> error + frame" where
  "df_filtered df selected_models selected_devices =
     andthen (getcol df ''model_name'') (\<lambda>m. andthen (getcol df ''device'') (\<lambda>d.
       Inr (mask_rows df (map2 (\<and>) (isin m selected_models) (isin d selected_devices)))))"

subsection \<open>Unit conversion (scaled dashboard)\<close>

definition display_energy :: "string \<Rightarrow> string \<Rightarrow> frame \<Rightarrow> error + frame" where
  "display_energy selected_energy_column selected_unit_type df = run
     [assign ''base_energy'' selected_energy_column Inr,
      (if selected_unit_type = ''kwh''
       then assign ''display_energy'' ''base_energy'' (\<lambda>c. div_scalar c 3600000)
       else if selected_unit_type = ''co2''
       then assign ''display_energy'' ''base_energy''
              (\<lambda>c. andthen (div_scalar c 3600000) (\<lambda>d. mul_scalar d 0.475))
       else if selected_unit_type = ''bulb''
       then assign ''display_energy'' ''base_energy'' (\<lambda>c. div_scalar c (50 * 3600))
       else assign ''display_energy'' ''base_energy'' Inr)] df"

subsection \<open>The views\<close>

text \<open>
  Each view reads the value column \<open>v\<close>: the selected unit's column in the first
  dashboard, \<^verbatim>\<open>display_energy\<close> in the scaled one.
\<close>

definition total_val :: "string \<Rightarrow> frame \<Rightarrow> error + real" where
  "total_val v df = andthen (getcol df v) (\<lambda>s. Inr (series_sum s))"

definition hourly_model :: "string \<Rightarrow> frame \<Rightarrow> error + (cell list \<times> real) list" where
  "hourly_model v df = groupby_sum [''hour'', ''model_name''] v df"

definition device_energy :: "string \<Rightarrow> frame \<Rightarrow> error + (cell list \<times> real) list" where
  "device_energy v df =
     andthen (groupby_sum [''device''] v df) (\<lambda>g. Inr (sort_key (\<lambda>(k, x). - x) g))"

definition cross_data :: "string \<Rightarrow> frame \<Rightarrow> error + (cell list \<times> real) list" where
  "cross_data v df = groupby_sum [''model_name'', ''device''] v df"

definition avg_hourly :: "string \<Rightarrow> frame \<Rightarrow> error + (cell list \<times> fval) list" where
  "avg_hourly v df =
     andthen (groupby_sum [''model_name''] v df) (\<lambda>s.
       andthen (groupby_nunique [''model_name''] ''hour'' df) (\<lambda>n.
         Inr (series_truediv s n)))"

definition forecast_hours :: real where
  "forecast_hours = 24 * 7"

definition forecast_df_final :: "string \<Rightarrow> frame \<Rightarrow> error + (cell list \<times> fval) list" where
  "forecast_df_final v df =
     andthen (avg_hourly v df) (\<lambda>a.
       Inr (sort_values_desc (map (\<lambda>(g, c). (g, times_const c forecast_hours)) a)))"

definition forecast_df_scaled :: "string \<Rightarrow> frame \<Rightarrow> error + (cell list \<times> fval) list" where
  "forecast_df_scaled v df =
     andthen (avg_hourly v df) (\<lambda>a.
       Inr (sort_values_desc (map (\<lambda>(g, c). (g, times_const (times_const c 24) 7)) a)))"

definition pivot :: "string \<Rightarrow> frame \<Rightarrow> error + pivot_frame" where
  "pivot v df =
     andthen (assign ''hour_of_day'' ''created_at'' dt_hour df) (\<lambda>df1.
       andthen (pivot_table v ''hour_of_day'' ''weekday'' df1) (\<lambda>P.
         pivot_select day_names (pivot_fillna 0 P)))"

text \<open>
  The scatter plots take the filtered table as it is: per row the x value, the y value and
  the colour category. The plotting library rejects a column name the table lacks.
\<close>

definition scatter :: "string \<Rightarrow> string \<Rightarrow> string \<Rightarrow> frame \<Rightarrow> error + (cell \<times> cell \<times> cell) list" where
  "scatter x y colour df =
     (if missing [x, y, colour] df \<noteq> [] then Inl ValueError
      else Inr (map (\<lambda>r. (cell_at r x, cell_at r y, cell_at r colour)) (rows df)))"

definition fig_tokens :: "string \<Rightarrow> frame \<Rightarrow> error + (cell \<times> cell \<times> cell) list" where
  "fig_tokens v df = scatter ''response_token_length'' v ''model_name'' df"

fun contains :: "string \<Rightarrow> string \<Rightarrow> bool" where
  "contains sub [] = (sub = [])"
| "contains sub (c # cs) = (take (length sub) (c # cs) = sub \<or> contains sub cs)"

definition complexity_cols_final :: "frame \<Rightarrow> string list" where
  "complexity_cols_final df =
     (let cc = filter (\<lambda>col. contains ''diversity'' col \<or> contains ''length'' col) (columns df)
      in cc @ filter (\<lambda>extra. extra \<in> set (columns df) \<and> extra \<notin> set cc)
                [''prompt_token_length'', ''response_token_length''])"

definition available_cols :: "frame \<Rightarrow> string list" where
  "available_cols df =
     filter (\<lambda>col. col \<in> set (columns df))
       [''prompt_token_length'', ''response_token_length'', ''avg_sentence_length'',
        ''lexical_diversity'']"

definition fig_complexity_final ::
  "string \<Rightarrow> string \<Rightarrow> frame \<Rightarrow> error + (cell \<times> cell \<times> cell) list" where
  "fig_complexity_final selected_complexity v df =
     (if complexity_cols_final df \<noteq> [] then scatter selected_complexity v ''device'' df
      else Inr [])"

text \<open>The scaled dashboard passes the colour column itself, \<^verbatim>\<open>df_filtered[color_by]\<close>.\<close>

definition fig_complexity_scaled ::
  "string \<Rightarrow> string \<Rightarrow> frame \<Rightarrow> error + (cell \<times> cell \<times> cell) list" where
  "fig_complexity_scaled selected_complexity color_by df =
     (if available_cols df \<noteq> []
      then andthen (getcol df color_by)
             (\<lambda>c. scatter selected_complexity ''display_energy'' color_by df)
      else Inr [])"

subsection \<open>The scripts as a whole\<close>

text \<open>
  Each script computes its views one after the other on the filtered table, so the first
  exception ends the run. The arguments are the table read from the CSV and the sidebar
  choices. The scatter plots come after the heatmap and see the \<^verbatim>\<open>hour_of_day\<close>
  column that the heatmap step assigned.
\<close>

record views_final =
  total_final :: real
  hourly_final :: "(cell list \<times> real) list"
  device_final :: "(cell list \<times> real) list"
  cross_final :: "(cell list \<times> real) list"
  forecast_final :: "(cell list \<times> fval) list"
  heatmap_final :: pivot_frame
  tokens_final :: "(cell \<times> cell \<times> cell) list"
  complexity_final :: "(cell \<times> cell \<times> cell) list"

definition dashboard_final ::
  "frame \<Rightarrow> cell list \<Rightarrow> cell list \<Rightarrow> string \<Rightarrow> string \<Rightarrow> error + views_final" where
  "dashboard_final src selected_models selected_devices selected_unit selected_complexity =
     andthen (load_data_final src) (\<lambda>df.
     andthen (df_filtered df selected_models selected_devices) (\<lambda>f.
     andthen (total_val selected_unit f) (\<lambda>tv.
     andthen (hourly_model selected_unit f) (\<lambda>hm.
     andthen (device_energy selected_unit f) (\<lambda>de.
     andthen (cross_data selected_unit f) (\<lambda>cd.
     andthen (forecast_df_final selected_unit f) (\<lambda>fc.
     andthen (pivot selected_unit f) (\<lambda>pv.
     andthen (assign ''hour_of_day'' ''created_at'' dt_hour f) (\<lambda>f1.
     andthen (fig_tokens selected_unit f1) (\<lambda>ft.
     andthen (fig_complexity_final selected_complexity selected_unit f1) (\<lambda>fx.
       Inr \<lparr>total_final = tv, hourly_final = hm, device_final = de, cross_final = cd,
            forecast_final = fc, heatmap_final = pv, tokens_final = ft,
            complexity_final = fx\<rparr>)))))))))))"

record views_scaled =
  total_scaled :: real
  hourly_scaled :: "(cell list \<times> real) list"
  cross_scaled :: "(cell list \<times> real) list"
  forecast_scaled :: "(cell list \<times> fval) list"
  heatmap_scaled :: pivot_frame
  tokens_scaled :: "(cell \<times> cell \<times> cell) list"
  complexity_scaled :: "(cell \<times> cell \<times> cell) list"

definition dashboard_scaled ::
  "(string \<Rightarrow> (int + real) option) \<Rightarrow> frame \<Rightarrow> cell list \<Rightarrow> cell list \<Rightarrow> string \<Rightarrow> string \<Rightarrow>
     string \<Rightarrow> string \<Rightarrow> error + views_scaled" where
  "dashboard_scaled p src selected_models selected_devices selected_energy_column
       selected_unit_type selected_complexity color_by =
     andthen (load_data_scaled p src) (\<lambda>df.
     andthen (df_filtered df selected_models selected_devices) (\<lambda>f0.
     andthen (display_energy selected_energy_column selected_unit_type f0) (\<lambda>f.
     andthen (total_val ''display_energy'' f) (\<lambda>tv.
     andthen (hourly_model ''display_energy'' f) (\<lambda>hm.
     andthen (cross_data ''display_energy'' f) (\<lambda>cd.
     andthen (forecast_df_scaled ''display_energy'' f) (\<lambda>fc.
     andthen (pivot ''display_energy'' f) (\<lambda>pv.
     andthen (assign ''hour_of_day'' ''created_at'' dt_hour f) (\<lambda>f1.
     andthen (fig_tokens ''display_energy'' f1) (\<lambda>ft.
     andthen (fig_complexity_scaled selected_complexity color_by f1) (\<lambda>fx.
       Inr \<lparr>total_scaled = tv, hourly_scaled = hm, cross_scaled = cd,
            forecast_scaled = fc, heatmap_scaled = pv, tokens_scaled = ft,
            complexity_scaled = fx\<rparr>)))))))))))"

section \<open>Auxiliary notions\<close>

text \<open>The header after \<^verbatim>\<open>df[k] = ...\<close>.\<close>

definition add_col :: "string \<Rightarrow> string list \<Rightarrow> string list" where
  "add_col k cs = (if k \<in> set cs then cs else cs @ [k])"

text \<open>A row before and after a column assignment that puts \<open>c\<close> under \<open>dst\<close>.\<close>

definition row_step :: "string \<Rightarrow> cell \<Rightarrow> row \<Rightarrow> row \<Rightarrow> bool" where
  "row_step dst c r r' \<longleftrightarrow>
     cell_at r' dst = c \<and> (\<forall>k. k \<noteq> dst \<longrightarrow> cell_at r' k = cell_at r k)"

text \<open>A block that assigns the columns \<open>ds\<close> and leaves every other cell as it was.\<close>

definition keeps :: "string list \<Rightarrow> frame \<Rightarrow> frame \<Rightarrow> bool" where
  "keeps ds df df' \<longleftrightarrow>
     columns df' = fold add_col ds (columns df) \<and>
     list_all2 (\<lambda>r r'. \<forall>k. k \<notin> set ds \<longrightarrow> cell_at r' k = cell_at r k) (rows df) (rows df')"

text \<open>
  Whether the converted measured column of a table is int64: every field converts to an
  integer.
\<close>

definition int64_measured :: "(string \<Rightarrow> (int + real) option) \<Rightarrow> frame \<Rightarrow> bool" where
  "int64_measured p df \<longleftrightarrow>
     list_all is_int64
       (map (\<lambda>r. to_numeric p (cell_at r ''energy_consumption_llm_total'')) (rows df))"

text \<open>The columns each loader assigns.\<close>

definition derived_final :: "string list" where
  "derived_final =
     [''hour'', ''weekday'', ''energy_joules'', ''energy_kwh'', ''co2_kg'',
      ''lightbulb_hours'']"

definition derived_scaled :: "string list" where
  "derived_scaled =
     [''hour'', ''weekday'', ''measured_energy_joules'', ''estimated_energy_joules'',
      ''final_energy_joules'', ''energy_kwh'', ''co2_kg'', ''lightbulb_hours'']"

section \<open>Example tables\<close>

text \<open>A string conversion that reads the one numeral the examples use.\<close>

definition example_parse :: "string \<Rightarrow> (int + real) option" where
  "example_parse s = (if s = ''2'' then Some (Inl 2) else None)"

definition example_row :: "int \<Rightarrow> cell \<Rightarrow> cell \<Rightarrow> real \<Rightarrow> cell \<Rightarrow> row" where
  "example_row t m d dur e =
     [(''created_at'', Time t), (''model_name'', m), (''device'', d),
      (''total_duration'', Num dur), (''energy_consumption_llm_total'', e),
      (''response_token_length'', Num 12)]"

definition example_columns :: "string list" where
  "example_columns =
     [''created_at'', ''model_name'', ''device'', ''total_duration'',
      ''energy_consumption_llm_total'', ''response_token_length'']"

text \<open>
  Three events: two of model A on gpu0 in consecutive hours of a Thursday, the first with
  a measured value, the second with an unreadable one; one of model B on a Friday with
  neither device nor measurement.
\<close>

definition example_source :: frame where
  "example_source =
     \<lparr>columns = example_columns,
      rows = [example_row 0 (Str ''A'') (Str ''gpu0'') 3600000000000 (Str ''2''),
              example_row 3600000000000 (Str ''A'') (Str ''gpu0'') 3600000000000 (Str ''n/a''),
              example_row 86400000000000 (Str ''B'') NaN 7200000000000 NaN]\<rparr>"

definition example_loaded :: frame where
  "example_loaded = projr (load_data_scaled example_parse example_source)"

definition example_loaded_final :: frame where
  "example_loaded_final = projr (load_data_final example_source)"

text \<open>
  Two events whose measured column is floating point: 2.5 and a missing field.
\<close>

definition numeric_source :: frame where
  "numeric_source =
     \<lparr>columns = example_columns,
      rows = [example_row 0 (Str ''A'') (Str ''gpu0'') 3600000000000 (Num 2.5),
              example_row 3600000000000 (Str ''A'') (Str ''gpu0'') 1800000000000 NaN]\<rparr>"

definition numeric_loaded :: frame where
  "numeric_loaded = projr (load_data_scaled example_parse numeric_source)"

text \<open>
  Tables whose duration and measured columns are int64: two events with the measured
  values 2 and 3, and one event with the measured value 200000000000000.
\<close>

definition integer_row :: "int \<Rightarrow> cell \<Rightarrow> cell \<Rightarrow> int \<Rightarrow> int \<Rightarrow> row" where
  "integer_row t m d dur e =
     [(''created_at'', Time t), (''model_name'', m), (''device'', d),
      (''total_duration'', Int64 dur), (''energy_consumption_llm_total'', Int64 e),
      (''response_token_length'', Int64 12)]"

definition integer_source :: frame where
  "integer_source =
     \<lparr>columns = example_columns,
      rows = [integer_row 0 (Str ''A'') (Str ''gpu0'') 3600000000000 2,
              integer_row 3600000000000 (Str ''A'') (Str ''gpu0'') 7200000000000 3]\<rparr>"

definition integer_loaded :: frame where
  "integer_loaded = projr (load_data_scaled example_parse integer_source)"

definition overflow_source :: frame where
  "overflow_source =
     \<lparr>columns = example_columns,
      rows = [integer_row 0 (Str ''A'') (Str ''gpu0'') 3600000000000 200000000000000]\<rparr>"

text \<open>A source that already has a column named \<^verbatim>\<open>energy_kwh\<close>.\<close>

definition clash_source :: frame where
  "clash_source =
     \<lparr>columns = example_columns @ [''energy_kwh''],
      rows = [example_row 0 (Str ''A'') (Str ''gpu0'') 3600000000000 NaN
                @ [(''energy_kwh'', Num 5)]]\<rparr>"








text \<open>The example table filtered with no model selected.\<close>

definition empty_table_final :: frame where
  "empty_table_final =
     projr (andthen (load_data_final example_source)
              (\<lambda>df. df_filtered df [] [Str ''gpu0'']))"

definition empty_table_scaled :: frame where
  "empty_table_scaled =
     projr (andthen (load_data_scaled example_parse example_source)
              (\<lambda>df. andthen (df_filtered df [] [Str ''gpu0''])
                 (display_energy ''final_energy_joules'' ''raw'')))"

section \<open>Basic facts\<close>

lemma andthen_Inr: "andthen m f = Inr y \<longleftrightarrow> (\<exists>x. m = Inr x \<and> f x = Inr y)"
  by (cases m) (simp_all add: andthen_def)

lemma run_Cons_Inr: "run (s # ss) df = Inr d \<longleftrightarrow> (\<exists>d1. s df = Inr d1 \<and> run ss d1 = Inr d)"
  by (cases "s df") simp_all

lemma smap_Inr: "smap f xs = Inr ys \<Longrightarrow> list_all2 (\<lambda>x y. f x = Inr y) xs ys"
  by (induction xs arbitrary: ys) (auto split: sum.splits)

lemma cell_at_update: "cell_at (AList.update k v r) k' = (if k' = k then v else cell_at r k')"
  by (simp add: cell_at_def update_conv')

lemma map2_same: "map2 f (map g xs) (map h xs) = map (\<lambda>x. f (g x) (h x)) xs"
  by (induction xs) simp_all

lemma list_all2_in2: "list_all2 P xs ys \<Longrightarrow> y \<in> set ys \<Longrightarrow> \<exists>x\<in>set xs. P x y"
  by (induction xs ys rule: list_all2_induct) auto

lemma setcol_rows:
  assumes "list_all2 (\<lambda>r c. Q r c) (rows df) s"
  shows "list_all2 (\<lambda>r r'. \<exists>c. Q r c \<and> row_step dst c r r') (rows df) (rows (setcol dst s df))"
proof -
  have "list_all2 (\<lambda>r r'. \<exists>c. Q r c \<and> row_step dst c r r') xs (map2 (\<lambda>r v. AList.update dst v r) xs s)"
    if "list_all2 (\<lambda>r c. Q r c) xs s" for xs
    using that by (induction xs s rule: list_all2_induct) (auto simp: row_step_def cell_at_update)
  with assms show ?thesis by (simp add: setcol_def)
qed

lemma assign_Inr:
  assumes "assign dst src f df = Inr df'"
  shows "src \<in> set (columns df)"
    and "columns df' = add_col dst (columns df)"
    and "list_all2 (\<lambda>r r'. \<exists>c. f (cell_at r src) = Inr c \<and> row_step dst c r r') (rows df) (rows df')"
proof -
  from assms obtain s v where s: "getcol df src = Inr s" and v: "smap f s = Inr v"
    and d: "df' = setcol dst v df"
    by (auto simp: assign_def andthen_Inr)
  from s show src: "src \<in> set (columns df)" by (simp add: getcol_def split: if_splits)
  from d show "columns df' = add_col dst (columns df)" by (simp add: setcol_def add_col_def)
  from s src have "s = map (\<lambda>r. cell_at r src) (rows df)" by (simp add: getcol_def)
  with smap_Inr [OF v] have "list_all2 (\<lambda>r c. f (cell_at r src) = Inr c) (rows df) v"
    by (simp add: list_all2_map1)
  from setcol_rows [OF this] d show "list_all2 (\<lambda>r r'. \<exists>c. f (cell_at r src) = Inr c \<and> row_step dst c r r') (rows df) (rows df')"
    by simp
qed

lemma assign2_Inr:
  assumes "assign2 dst src1 src2 f df = Inr df'"
  shows "src1 \<in> set (columns df)" and "src2 \<in> set (columns df)"
    and "columns df' = add_col dst (columns df)"
    and "list_all2 (\<lambda>r r'. row_step dst (f (cell_at r src1) (cell_at r src2)) r r') (rows df) (rows df')"
proof -
  from assms obtain s1 s2 where s1: "getcol df src1 = Inr s1" and s2: "getcol df src2 = Inr s2"
    and d: "df' = setcol dst (map2 f s1 s2) df"
    by (auto simp: assign2_def andthen_Inr)
  from s1 show c1: "src1 \<in> set (columns df)" by (simp add: getcol_def split: if_splits)
  from s2 show c2: "src2 \<in> set (columns df)" by (simp add: getcol_def split: if_splits)
  from d show "columns df' = add_col dst (columns df)" by (simp add: setcol_def add_col_def)
  from s1 c1 s2 c2 have "map2 f s1 s2 = map (\<lambda>r. f (cell_at r src1) (cell_at r src2)) (rows df)"
    by (auto simp: getcol_def map2_same)
  then have "list_all2 (\<lambda>r c. c = f (cell_at r src1) (cell_at r src2)) (rows df) (map2 f s1 s2)"
    by (simp add: list_all2_map2 list_all2_same)
  from setcol_rows [OF this, of dst] d show "list_all2 (\<lambda>r r'. row_step dst (f (cell_at r src1) (cell_at r src2)) r r') (rows df) (rows df')"
    by simp
qed

lemma load_data_final_row:
  assumes "load_data_final src = Inr df" and "r \<in> set (rows df)"
  shows "div_scalar (cell_at r ''total_duration'') 1000000000 = Inr (cell_at r ''energy_joules'')"
    and "div_scalar (cell_at r ''energy_joules'') 3600000 = Inr (cell_at r ''energy_kwh'')"
    and "mul_scalar (cell_at r ''energy_kwh'') 0.475 = Inr (cell_at r ''co2_kg'')"
    and "div_scalar (cell_at r ''energy_joules'') (50 * 3600) = Inr (cell_at r ''lightbulb_hours'')"
proof -
  from assms(1) obtain d1 d2 d3 d4 d5 where
    s1: "assign ''hour'' ''created_at'' dt_floor_H src = Inr d1" and
    s2: "assign ''weekday'' ''created_at'' dt_day_name d1 = Inr d2" and
    s3: "assign ''energy_joules'' ''total_duration'' (\<lambda>c. div_scalar c 1000000000) d2 = Inr d3" and
    s4: "assign ''energy_kwh'' ''energy_joules'' (\<lambda>c. div_scalar c 3600000) d3 = Inr d4" and
    s5: "assign ''co2_kg'' ''energy_kwh'' (\<lambda>c. mul_scalar c 0.475) d4 = Inr d5" and
    s6: "assign ''lightbulb_hours'' ''energy_joules'' (\<lambda>c. div_scalar c (50 * 3600)) d5 = Inr df"
    unfolding load_data_final_def run_Cons_Inr by auto
  from list_all2_in2 [OF assign_Inr(3) [OF s6] assms(2)] obtain r5 c6 where
    r5: "r5 \<in> set (rows d5)" and c6: "div_scalar (cell_at r5 ''energy_joules'') (50 * 3600) = Inr c6"
    and t6: "row_step ''lightbulb_hours'' c6 r5 r" by blast
  from list_all2_in2 [OF assign_Inr(3) [OF s5] r5] obtain r4 c5 where
    r4: "r4 \<in> set (rows d4)" and c5: "mul_scalar (cell_at r4 ''energy_kwh'') 0.475 = Inr c5"
    and t5: "row_step ''co2_kg'' c5 r4 r5" by blast
  from list_all2_in2 [OF assign_Inr(3) [OF s4] r4] obtain r3 c4 where
    r3: "r3 \<in> set (rows d3)" and c4: "div_scalar (cell_at r3 ''energy_joules'') 3600000 = Inr c4"
    and t4: "row_step ''energy_kwh'' c4 r3 r4" by blast
  from list_all2_in2 [OF assign_Inr(3) [OF s3] r3] obtain r2 c3 where
    r2: "r2 \<in> set (rows d2)" and c3: "div_scalar (cell_at r2 ''total_duration'') 1000000000 = Inr c3"
    and t3: "row_step ''energy_joules'' c3 r2 r3" by blast
  note t = t3 t4 t5 t6
  show "div_scalar (cell_at r ''total_duration'') 1000000000 = Inr (cell_at r ''energy_joules'')"
    using c3 t by (simp add: row_step_def)
  show "div_scalar (cell_at r ''energy_joules'') 3600000 = Inr (cell_at r ''energy_kwh'')"
    using c4 t by (simp add: row_step_def)
  show "mul_scalar (cell_at r ''energy_kwh'') 0.475 = Inr (cell_at r ''co2_kg'')"
    using c5 t by (simp add: row_step_def)
  show "div_scalar (cell_at r ''energy_joules'') (50 * 3600) = Inr (cell_at r ''lightbulb_hours'')"
    using c6 t by (simp add: row_step_def)
qed

lemma keeps_assign: "assign dst src f df = Inr df' \<Longrightarrow> keeps [dst] df df'"
  unfolding keeps_def
  by (auto simp: assign_Inr(2) row_step_def elim!: list_all2_mono [OF assign_Inr(3)])

lemma keeps_assign2: "assign2 dst src1 src2 f df = Inr df' \<Longrightarrow> keeps [dst] df df'"
  unfolding keeps_def
  by (auto simp: assign2_Inr(3) row_step_def elim!: list_all2_mono [OF assign2_Inr(4)])

lemma keeps_trans:
  assumes "keeps ds df df'" and "keeps es df' df''"
  shows "keeps (ds @ es) df df''"
proof -
  have "list_all2 (\<lambda>r r'. \<forall>k. k \<notin> set (ds @ es) \<longrightarrow> cell_at r' k = cell_at r k)
          (rows df) (rows df'')"
  proof (rule list_all2_trans)
    show "list_all2 (\<lambda>r r'. \<forall>k. k \<notin> set ds \<longrightarrow> cell_at r' k = cell_at r k) (rows df) (rows df')"
      using assms(1) by (simp add: keeps_def)
    show "list_all2 (\<lambda>r r'. \<forall>k. k \<notin> set es \<longrightarrow> cell_at r' k = cell_at r k) (rows df') (rows df'')"
      using assms(2) by (simp add: keeps_def)
  qed simp
  with assms show ?thesis by (simp add: keeps_def)
qed

lemma fold_add_col:
  "distinct ds \<Longrightarrow> fold add_col ds cs = cs @ filter (\<lambda>k. k \<notin> set cs) ds"
proof (induction ds arbitrary: cs)
  case Nil
  then show ?case by simp
next
  case (Cons d ds)
  then have "filter (\<lambda>k. k \<notin> set (add_col d cs)) ds = filter (\<lambda>k. k \<notin> set cs) ds"
    by (intro filter_cong) (auto simp: add_col_def)
  with Cons show ?case by (simp add: add_col_def)
qed

lemma keeps_cells:
  assumes "keeps ds df df'" and "k \<notin> set ds"
  shows "map (\<lambda>r. cell_at r k) (rows df') = map (\<lambda>r. cell_at r k) (rows df)"
proof -
  from assms have "list_all2 (\<lambda>r r'. cell_at r' k = cell_at r k) (rows df) (rows df')"
    by (auto simp: keeps_def elim!: list_all2_mono)
  then show ?thesis
    by (induction rule: list_all2_induct) simp_all
qed

lemma keeps_getcol:
  assumes "keeps ds df df'" and "k \<notin> set ds"
  shows "getcol df' k = getcol df k"
proof -
  have "set (fold add_col es cs) = set cs \<union> set es" for es cs
    by (induction es arbitrary: cs) (auto simp: add_col_def)
  with assms have c: "k \<in> set (columns df') \<longleftrightarrow> k \<in> set (columns df)"
    by (simp add: keeps_def)
  with keeps_cells [OF assms] show ?thesis
    by (simp add: getcol_def)
qed

lemma smap_map: "smap g (map h s) = smap (\<lambda>c. g (h c)) s"
  by (induction s) (simp_all split: sum.splits)

text \<open>
  The conversion and scaling of the measured column, field by field: whether the
  converted column is int64 is a property of the whole column.
\<close>

lemma measured_assign:
  "assign_series dst src (\<lambda>s. smap (\<lambda>c. mul_int c k) (to_numeric_series p s)) df =
   assign dst src
     (\<lambda>c. mul_int (if list_all is_int64 (map (\<lambda>r. to_numeric p (cell_at r src)) (rows df))
                    then to_numeric p c else as_float (to_numeric p c)) k) df"
proof -
  have "smap (\<lambda>c. mul_int c k) (to_numeric_series p s) =
        smap (\<lambda>c. mul_int (if list_all is_int64 (map (to_numeric p) s)
                            then to_numeric p c else as_float (to_numeric p c)) k) s" for s
    unfolding to_numeric_series_def Let_def
    by (cases "list_all is_int64 (map (to_numeric p) s)") (simp_all only: smap_map if_True if_False)
  then show ?thesis
    by (simp add: assign_series_def assign_def getcol_def andthen_def comp_def)
qed

lemma load_data_scaled_steps:
  assumes "load_data_scaled p src = Inr df"
  shows "\<exists>d1 d2 d3 d4 d5 d6 d7.
    assign ''hour'' ''created_at'' dt_floor_H src = Inr d1 \<and>
    assign ''weekday'' ''created_at'' dt_day_name d1 = Inr d2 \<and>
    assign ''measured_energy_joules'' ''energy_consumption_llm_total''
      (\<lambda>c. mul_int (if int64_measured p d2 then to_numeric p c else as_float (to_numeric p c))
             scale_factor) d2 = Inr d3 \<and>
    assign ''estimated_energy_joules'' ''total_duration'' (\<lambda>c. div_scalar c 1000000000) d3
      = Inr d4 \<and>
    assign2 ''final_energy_joules'' ''measured_energy_joules'' ''estimated_energy_joules''
      fillna d4 = Inr d5 \<and>
    assign ''energy_kwh'' ''final_energy_joules'' (\<lambda>c. div_scalar c 3600000) d5 = Inr d6 \<and>
    assign ''co2_kg'' ''energy_kwh'' (\<lambda>c. mul_scalar c 0.475) d6 = Inr d7 \<and>
    assign ''lightbulb_hours'' ''final_energy_joules'' (\<lambda>c. div_scalar c (50 * 3600)) d7
      = Inr df"
  using assms
  unfolding load_data_scaled_def run_Cons_Inr measured_assign int64_measured_def
  by auto

lemma keeps_load_data_final: assumes "load_data_final src = Inr df" shows "keeps derived_final src df"
proof -
  from assms obtain d1 d2 d3 d4 d5 where
    s1: "assign ''hour'' ''created_at'' dt_floor_H src = Inr d1" and
    s2: "assign ''weekday'' ''created_at'' dt_day_name d1 = Inr d2" and
    s3: "assign ''energy_joules'' ''total_duration'' (\<lambda>c. div_scalar c 1000000000) d2 = Inr d3" and
    s4: "assign ''energy_kwh'' ''energy_joules'' (\<lambda>c. div_scalar c 3600000) d3 = Inr d4" and
    s5: "assign ''co2_kg'' ''energy_kwh'' (\<lambda>c. mul_scalar c 0.475) d4 = Inr d5" and
    s6: "assign ''lightbulb_hours'' ''energy_joules'' (\<lambda>c. div_scalar c (50 * 3600)) d5 = Inr df"
    unfolding load_data_final_def run_Cons_Inr by auto
  from keeps_trans [OF keeps_trans [OF keeps_trans [OF keeps_trans [OF keeps_trans [OF
    keeps_assign [OF s1] keeps_assign [OF s2]] keeps_assign [OF s3]] keeps_assign [OF s4]]
    keeps_assign [OF s5]] keeps_assign [OF s6]]
  show ?thesis by (simp add: derived_final_def)
qed

lemma keeps_load_data_scaled: assumes "load_data_scaled p src = Inr df" shows "keeps derived_scaled src df"
proof -
  from load_data_scaled_steps [OF assms] obtain d1 d2 d3 d4 d5 d6 d7 where
    s1: "assign ''hour'' ''created_at'' dt_floor_H src = Inr d1" and
    s2: "assign ''weekday'' ''created_at'' dt_day_name d1 = Inr d2" and
    s3: "assign ''measured_energy_joules'' ''energy_consumption_llm_total''
      (\<lambda>c. mul_int (if int64_measured p d2 then to_numeric p c else as_float (to_numeric p c))
             scale_factor) d2 = Inr d3" and
    s4: "assign ''estimated_energy_joules'' ''total_duration'' (\<lambda>c. div_scalar c 1000000000) d3 = Inr d4" and
    s5: "assign2 ''final_energy_joules'' ''measured_energy_joules'' ''estimated_energy_joules'' fillna d4 = Inr d5" and
    s6: "assign ''energy_kwh'' ''final_energy_joules'' (\<lambda>c. div_scalar c 3600000) d5 = Inr d6" and
    s7: "assign ''co2_kg'' ''energy_kwh'' (\<lambda>c. mul_scalar c 0.475) d6 = Inr d7" and
    s8: "assign ''lightbulb_hours'' ''final_energy_joules'' (\<lambda>c. div_scalar c (50 * 3600)) d7 = Inr df"
    by blast
  from keeps_trans [OF keeps_trans [OF keeps_trans [OF keeps_trans [OF keeps_trans [OF keeps_trans [OF keeps_trans [OF
    keeps_assign [OF s1] keeps_assign [OF s2]] keeps_assign [OF s3]] keeps_assign [OF s4]]
    keeps_assign2 [OF s5]] keeps_assign [OF s6]] keeps_assign [OF s7]] keeps_assign [OF s8]]
  show ?thesis by (simp add: derived_scaled_def)
qed

lemma int64_measured_kept:
  assumes "keeps ds df df'" and "''energy_consumption_llm_total'' \<notin> set ds"
  shows "int64_measured p df' = int64_measured p df"
proof -
  have "map (\<lambda>r. to_numeric p (cell_at r ''energy_consumption_llm_total'')) (rows df') =
        map (to_numeric p) (map (\<lambda>r. cell_at r ''energy_consumption_llm_total'') (rows df'))"
    by (simp add: comp_def)
  also have "\<dots> = map (to_numeric p)
                     (map (\<lambda>r. cell_at r ''energy_consumption_llm_total'') (rows df))"
    by (simp only: keeps_cells [OF assms])
  finally show ?thesis
    by (simp add: int64_measured_def comp_def)
qed

lemma load_data_scaled_row:
  assumes "load_data_scaled p src = Inr df" and "r \<in> set (rows df)"
  shows "mul_int (if int64_measured p df
                  then to_numeric p (cell_at r ''energy_consumption_llm_total'')
                  else as_float (to_numeric p (cell_at r ''energy_consumption_llm_total'')))
           scale_factor = Inr (cell_at r ''measured_energy_joules'')"
    and "div_scalar (cell_at r ''total_duration'') 1000000000 = Inr (cell_at r ''estimated_energy_joules'')"
    and "cell_at r ''final_energy_joules'' = fillna (cell_at r ''measured_energy_joules'') (cell_at r ''estimated_energy_joules'')"
    and "div_scalar (cell_at r ''final_energy_joules'') 3600000 = Inr (cell_at r ''energy_kwh'')"
    and "mul_scalar (cell_at r ''energy_kwh'') 0.475 = Inr (cell_at r ''co2_kg'')"
    and "div_scalar (cell_at r ''final_energy_joules'') (50 * 3600) = Inr (cell_at r ''lightbulb_hours'')"
proof -
  from load_data_scaled_steps [OF assms(1)] obtain d1 d2 d3 d4 d5 d6 d7 where
    s1: "assign ''hour'' ''created_at'' dt_floor_H src = Inr d1" and
    s2: "assign ''weekday'' ''created_at'' dt_day_name d1 = Inr d2" and
    s3: "assign ''measured_energy_joules'' ''energy_consumption_llm_total''
      (\<lambda>c. mul_int (if int64_measured p d2 then to_numeric p c else as_float (to_numeric p c))
             scale_factor) d2 = Inr d3" and
    s4: "assign ''estimated_energy_joules'' ''total_duration'' (\<lambda>c. div_scalar c 1000000000) d3 = Inr d4" and
    s5: "assign2 ''final_energy_joules'' ''measured_energy_joules'' ''estimated_energy_joules'' fillna d4 = Inr d5" and
    s6: "assign ''energy_kwh'' ''final_energy_joules'' (\<lambda>c. div_scalar c 3600000) d5 = Inr d6" and
    s7: "assign ''co2_kg'' ''energy_kwh'' (\<lambda>c. mul_scalar c 0.475) d6 = Inr d7" and
    s8: "assign ''lightbulb_hours'' ''final_energy_joules'' (\<lambda>c. div_scalar c (50 * 3600)) d7 = Inr df"
    by blast
  have "keeps [''hour'', ''weekday''] src d2"
    using keeps_trans [OF keeps_assign [OF s1] keeps_assign [OF s2]] by simp
  then have "int64_measured p d2 = int64_measured p src"
    by (rule int64_measured_kept) simp
  moreover have "int64_measured p df = int64_measured p src"
    using keeps_load_data_scaled [OF assms(1)]
    by (rule int64_measured_kept) (simp add: derived_scaled_def)
  ultimately have b: "int64_measured p d2 = int64_measured p df"
    by simp
  from list_all2_in2 [OF assign_Inr(3) [OF s8] assms(2)] obtain r7 c8 where
    r7: "r7 \<in> set (rows d7)" and c8: "div_scalar (cell_at r7 ''final_energy_joules'') (50 * 3600) = Inr c8"
    and t8: "row_step ''lightbulb_hours'' c8 r7 r" by blast
  from list_all2_in2 [OF assign_Inr(3) [OF s7] r7] obtain r6 c7 where
    r6: "r6 \<in> set (rows d6)" and c7: "mul_scalar (cell_at r6 ''energy_kwh'') 0.475 = Inr c7"
    and t7: "row_step ''co2_kg'' c7 r6 r7" by blast
  from list_all2_in2 [OF assign_Inr(3) [OF s6] r6] obtain r5 c6 where
    r5: "r5 \<in> set (rows d5)" and c6: "div_scalar (cell_at r5 ''final_energy_joules'') 3600000 = Inr c6"
    and t6: "row_step ''energy_kwh'' c6 r5 r6" by blast
  from list_all2_in2 [OF assign2_Inr(4) [OF s5] r5] obtain r4 where
    r4: "r4 \<in> set (rows d4)"
    and t5: "row_step ''final_energy_joules'' (fillna (cell_at r4 ''measured_energy_joules'') (cell_at r4 ''estimated_energy_joules'')) r4 r5" by blast
  from list_all2_in2 [OF assign_Inr(3) [OF s4] r4] obtain r3 c4 where
    r3: "r3 \<in> set (rows d3)" and c4: "div_scalar (cell_at r3 ''total_duration'') 1000000000 = Inr c4"
    and t4: "row_step ''estimated_energy_joules'' c4 r3 r4" by blast
  from list_all2_in2 [OF assign_Inr(3) [OF s3] r3] obtain r2 c3 where
    r2: "r2 \<in> set (rows d2)"
    and c3: "mul_int (if int64_measured p df
                      then to_numeric p (cell_at r2 ''energy_consumption_llm_total'')
                      else as_float (to_numeric p (cell_at r2 ''energy_consumption_llm_total'')))
               scale_factor = Inr c3"
    and t3: "row_step ''measured_energy_joules'' c3 r2 r3"
    unfolding b by blast
  note t = t3 t4 t5 t6 t7 t8
  show "mul_int (if int64_measured p df
                  then to_numeric p (cell_at r ''energy_consumption_llm_total'')
                  else as_float (to_numeric p (cell_at r ''energy_consumption_llm_total'')))
           scale_factor = Inr (cell_at r ''measured_energy_joules'')"
    using c3 t by (simp add: row_step_def split: if_splits)
  show "div_scalar (cell_at r ''total_duration'') 1000000000 = Inr (cell_at r ''estimated_energy_joules'')"
    using c4 t by (simp add: row_step_def)
  show "cell_at r ''final_energy_joules'' = fillna (cell_at r ''measured_energy_joules'') (cell_at r ''estimated_energy_joules'')"
    using t by (simp add: row_step_def)
  show "div_scalar (cell_at r ''final_energy_joules'') 3600000 = Inr (cell_at r ''energy_kwh'')"
    using c6 t by (simp add: row_step_def)
  show "mul_scalar (cell_at r ''energy_kwh'') 0.475 = Inr (cell_at r ''co2_kg'')"
    using c7 t by (simp add: row_step_def)
  show "div_scalar (cell_at r ''final_energy_joules'') (50 * 3600) = Inr (cell_at r ''lightbulb_hours'')"
    using c8 t by (simp add: row_step_def)
qed

section \<open>The loaders' derived columns\<close>

lemma is_int64_to_numeric:
  "is_int64 (to_numeric p c) \<longleftrightarrow>
     (\<exists>k. c = Int64 k) \<or> (\<exists>s k. c = Str s \<and> p s = Some (Inl k)) \<or> (\<exists>t. c = Time t)"
  by (cases c) (auto split: option.splits sum.splits)

lemma int64_measured_iff:
  "int64_measured p df \<longleftrightarrow>
     (\<forall>r \<in> set (rows df).
        (\<exists>k. cell_at r ''energy_consumption_llm_total'' = Int64 k) \<or>
        (\<exists>s k. cell_at r ''energy_consumption_llm_total'' = Str s \<and> p s = Some (Inl k)) \<or>
        (\<exists>t. cell_at r ''energy_consumption_llm_total'' = Time t))"
  by (simp add: int64_measured_def list_all_iff is_int64_to_numeric)

lemma wrap64_in_range: "- (2 ^ 63) \<le> n \<Longrightarrow> n < 2 ^ 63 \<Longrightarrow> wrap64 n = n"
  by (simp add: wrap64_def)

lemma div_scalar_numeric: "div_scalar a k = Inr b \<Longrightarrow> (\<exists>x. b = Num x) \<or> b = NaN"
  by (cases a) auto

lemma mul_scalar_numeric: "mul_scalar a k = Inr b \<Longrightarrow> (\<exists>x. b = Num x) \<or> b = NaN"
  by (cases a) auto

lemma mul_int_numeric:
  "mul_int a k = Inr b \<Longrightarrow> (\<exists>x. b = Num x) \<or> (\<exists>n. b = Int64 n) \<or> b = NaN"
  by (cases a) auto

lemma div_scalar_value:
  "div_scalar a k = Inr b \<Longrightarrow>
     b = (case a of Num x \<Rightarrow> Num (x / k) | Int64 n \<Rightarrow> Num (of_int n / k) | _ \<Rightarrow> NaN)"
  by (cases a) auto

lemma mul_scalar_value:
  "mul_scalar a k = Inr b \<Longrightarrow>
     b = (case a of Num x \<Rightarrow> Num (x * k) | Int64 n \<Rightarrow> Num (of_int n * k) | _ \<Rightarrow> NaN)"
  by (cases a) auto

text \<open>
  The energy columns of a loaded table hold numbers and missing values only, so the sums
  of the views never meet a string or a timestamp. Integers occur in the measured and
  final columns of the scaled dashboard alone; every other energy column is floating
  point.
\<close>

lemma loaded_energy_columns_numeric:
  assumes "r \<in> set (rows df)"
  shows "load_data_scaled p src = Inr df \<Longrightarrow>
           k \<in> {''measured_energy_joules'', ''estimated_energy_joules'', ''final_energy_joules'',
                 ''energy_kwh'', ''co2_kg'', ''lightbulb_hours''} \<Longrightarrow>
           (\<exists>x. cell_at r k = Num x) \<or> (\<exists>n. cell_at r k = Int64 n) \<or> cell_at r k = NaN"
    and "load_data_final src = Inr df \<Longrightarrow>
           k \<in> {''energy_joules'', ''energy_kwh'', ''co2_kg'', ''lightbulb_hours''} \<Longrightarrow>
           (\<exists>x. cell_at r k = Num x) \<or> cell_at r k = NaN"
proof -
  assume l: "load_data_scaled p src = Inr df"
    and k: "k \<in> {''measured_energy_joules'', ''estimated_energy_joules'',
                 ''final_energy_joules'', ''energy_kwh'', ''co2_kg'', ''lightbulb_hours''}"
  note f = load_data_scaled_row [OF l assms]
  have m: "(\<exists>x. cell_at r ''measured_energy_joules'' = Num x) \<or>
           (\<exists>n. cell_at r ''measured_energy_joules'' = Int64 n) \<or>
           cell_at r ''measured_energy_joules'' = NaN"
    using f(1) by (rule mul_int_numeric)
  have e: "(\<exists>x. cell_at r ''estimated_energy_joules'' = Num x) \<or>
           cell_at r ''estimated_energy_joules'' = NaN"
    using f(2) by (rule div_scalar_numeric)
  from m e have "(\<exists>x. cell_at r ''final_energy_joules'' = Num x) \<or>
           (\<exists>n. cell_at r ''final_energy_joules'' = Int64 n) \<or>
           cell_at r ''final_energy_joules'' = NaN"
    unfolding f(3) fillna_def by auto
  with m e k div_scalar_numeric [OF f(4)] mul_scalar_numeric [OF f(5)]
    div_scalar_numeric [OF f(6)]
  show "(\<exists>x. cell_at r k = Num x) \<or> (\<exists>n. cell_at r k = Int64 n) \<or> cell_at r k = NaN"
    by auto
next
  assume l: "load_data_final src = Inr df"
    and k: "k \<in> {''energy_joules'', ''energy_kwh'', ''co2_kg'', ''lightbulb_hours''}"
  note f = load_data_final_row [OF l assms]
  from k div_scalar_numeric [OF f(1)] div_scalar_numeric [OF f(2)]
    mul_scalar_numeric [OF f(3)] div_scalar_numeric [OF f(4)]
  show "(\<exists>x. cell_at r k = Num x) \<or> cell_at r k = NaN"
    by auto
qed

lemma example_loaded_ok: "load_data_scaled example_parse example_source = Inr example_loaded"
proof -
  have "\<not> isl (load_data_scaled example_parse example_source)"
    by code_simp
  then show ?thesis
    by (simp add: example_loaded_def)
qed

lemma example_loaded_final_ok: "load_data_final example_source = Inr example_loaded_final"
proof -
  have "\<not> isl (load_data_final example_source)"
    by code_simp
  then show ?thesis
    by (simp add: example_loaded_final_def)
qed

lemma numeric_loaded_ok: "load_data_scaled example_parse numeric_source = Inr numeric_loaded"
proof -
  have "\<not> isl (load_data_scaled example_parse numeric_source)"
    by code_simp
  then show ?thesis
    by (simp add: numeric_loaded_def)
qed

lemma integer_loaded_ok: "load_data_scaled example_parse integer_source = Inr integer_loaded"
proof -
  have "\<not> isl (load_data_scaled example_parse integer_source)"
    by code_simp
  then show ?thesis
    by (simp add: integer_loaded_def)
qed

text \<open>
  C1, as the code has it. Take any row of the table the scaled dashboard loads and its raw
  measured field \<^verbatim>\<open>energy_consumption_llm_total\<close>. The converted measured column is
  int64 when every field of it is an integer (an integer field, or a string the
  conversion reads as an integer), and float64 otherwise.
  \<^item> A floating-point field \<open>x\<close>, or a string read as \<open>x\<close>: \<^verbatim>\<open>measured_energy_joules\<close>
    is \<open>x\<close> times 50493 and \<^verbatim>\<open>final_energy_joules\<close> equals it.
  \<^item> An integer field \<open>k\<close>, or a string read as \<open>k\<close>: in a float64 column
    \<^verbatim>\<open>measured_energy_joules\<close> is \<open>k\<close> times 50493; in an int64 column it is that
    product in 64-bit arithmetic, which is \<open>k\<close> times 50493 while the product lies
    between \<open>-2^63\<close> and \<open>2^63 - 1\<close>. \<^verbatim>\<open>final_energy_joules\<close> equals it.
  \<^item> A missing field, or a string the conversion rejects: \<^verbatim>\<open>measured_energy_joules\<close>
    is missing and \<^verbatim>\<open>final_energy_joules\<close> equals \<^verbatim>\<open>estimated_energy_joules\<close>.
  \<^item> \<^verbatim>\<open>estimated_energy_joules\<close> is \<^verbatim>\<open>total_duration\<close> divided by 1e9, missing where
    the duration is missing.
\<close>

theorem final_energy_measured_else_estimated:
  fixes p :: "string \<Rightarrow> (int + real) option" and df :: frame and r :: row
  defines "int64 \<equiv>
    (\<forall>r' \<in> set (rows df).
       (\<exists>k. cell_at r' ''energy_consumption_llm_total'' = Int64 k) \<or>
       (\<exists>s k. cell_at r' ''energy_consumption_llm_total'' = Str s \<and> p s = Some (Inl k)) \<or>
       (\<exists>t. cell_at r' ''energy_consumption_llm_total'' = Time t))"
  assumes "load_data_scaled p src = Inr df" and "r \<in> set (rows df)"
  shows "(\<forall>x. cell_at r ''energy_consumption_llm_total'' = Num x \<or>
              (\<exists>s. cell_at r ''energy_consumption_llm_total'' = Str s \<and> p s = Some (Inr x)) \<longrightarrow>
            cell_at r ''measured_energy_joules'' = Num (x * 50493) \<and>
            cell_at r ''final_energy_joules'' = Num (x * 50493)) \<and>
         (\<forall>k. cell_at r ''energy_consumption_llm_total'' = Int64 k \<or>
              (\<exists>s. cell_at r ''energy_consumption_llm_total'' = Str s \<and> p s = Some (Inl k)) \<longrightarrow>
            cell_at r ''measured_energy_joules'' =
              (if int64 then Int64 ((k * 50493 + 2 ^ 63) mod 2 ^ 64 - 2 ^ 63)
               else Num (of_int k * 50493)) \<and>
            cell_at r ''final_energy_joules'' = cell_at r ''measured_energy_joules'' \<and>
            (- (2 ^ 63) \<le> k * 50493 \<and> k * 50493 < 2 ^ 63 \<longrightarrow>
               cell_at r ''measured_energy_joules'' =
                 (if int64 then Int64 (k * 50493) else Num (of_int k * 50493)))) \<and>
         (cell_at r ''energy_consumption_llm_total'' = NaN \<or>
            (\<exists>s. cell_at r ''energy_consumption_llm_total'' = Str s \<and> p s = None) \<longrightarrow>
            cell_at r ''measured_energy_joules'' = NaN \<and>
            cell_at r ''final_energy_joules'' = cell_at r ''estimated_energy_joules'') \<and>
         cell_at r ''estimated_energy_joules'' =
           (case cell_at r ''total_duration'' of
              Num x \<Rightarrow> Num (x / 1000000000) | Int64 k \<Rightarrow> Num (of_int k / 1000000000)
            | _ \<Rightarrow> NaN)"
proof -
  note f = load_data_scaled_row [OF assms(2,3)]
  have i: "int64_measured p df = int64"
    unfolding int64_def by (rule int64_measured_iff)
  note m = f(1) [unfolded i]
  have w: "- (2 ^ 63) \<le> n \<and> n < 2 ^ 63 \<longrightarrow> (n + 2 ^ 63) mod 2 ^ 64 - 2 ^ 63 = n" for n :: int
    using wrap64_in_range [of n] by (simp add: wrap64_def)
  have a: "cell_at r ''measured_energy_joules'' = Num (x * 50493) \<and>
           cell_at r ''final_energy_joules'' = Num (x * 50493)"
    if "cell_at r ''energy_consumption_llm_total'' = Num x \<or>
        (\<exists>s. cell_at r ''energy_consumption_llm_total'' = Str s \<and> p s = Some (Inr x))" for x
    using that m f(3) by (auto simp: fillna_def scale_factor_def split: if_splits)
  have b: "cell_at r ''measured_energy_joules'' =
              (if int64 then Int64 ((k * 50493 + 2 ^ 63) mod 2 ^ 64 - 2 ^ 63)
               else Num (of_int k * 50493)) \<and>
           cell_at r ''final_energy_joules'' = cell_at r ''measured_energy_joules''"
    if "cell_at r ''energy_consumption_llm_total'' = Int64 k \<or>
        (\<exists>s. cell_at r ''energy_consumption_llm_total'' = Str s \<and> p s = Some (Inl k))" for k
    using that m f(3) by (auto simp: fillna_def scale_factor_def wrap64_def split: if_splits)
  have c: "cell_at r ''measured_energy_joules'' = NaN \<and>
           cell_at r ''final_energy_joules'' = cell_at r ''estimated_energy_joules''"
    if "cell_at r ''energy_consumption_llm_total'' = NaN \<or>
        (\<exists>s. cell_at r ''energy_consumption_llm_total'' = Str s \<and> p s = None)"
    using that m f(3) by (auto simp: fillna_def split: if_splits)
  have b': "- (2 ^ 63) \<le> k * 50493 \<and> k * 50493 < 2 ^ 63 \<longrightarrow>
            cell_at r ''measured_energy_joules'' =
              (if int64 then Int64 (k * 50493) else Num (of_int k * 50493))"
    if "cell_at r ''energy_consumption_llm_total'' = Int64 k \<or>
        (\<exists>s. cell_at r ''energy_consumption_llm_total'' = Str s \<and> p s = Some (Inl k))" for k
    using b [OF that] w [of "k * 50493"] by auto
  note d = div_scalar_value [OF f(2)]
  show ?thesis
    by (insert a b b' c d, intro conjI allI impI) blast+
qed

theorem final_energy_measured_else_estimated_witness:
  "load_data_scaled example_parse numeric_source = Inr numeric_loaded \<and>
   rows numeric_loaded ! 0 \<in> set (rows numeric_loaded) \<and>
   rows numeric_loaded ! 1 \<in> set (rows numeric_loaded) \<and>
   cell_at (rows numeric_loaded ! 0) ''energy_consumption_llm_total'' = Num (5 / 2) \<and>
   cell_at (rows numeric_loaded ! 0) ''measured_energy_joules'' = Num (252465 / 2) \<and>
   cell_at (rows numeric_loaded ! 0) ''final_energy_joules'' = Num (252465 / 2) \<and>
   cell_at (rows numeric_loaded ! 1) ''energy_consumption_llm_total'' = NaN \<and>
   cell_at (rows numeric_loaded ! 1) ''measured_energy_joules'' = NaN \<and>
   cell_at (rows numeric_loaded ! 1) ''estimated_energy_joules'' = Num 1800 \<and>
   cell_at (rows numeric_loaded ! 1) ''final_energy_joules'' = Num 1800 \<and>
   load_data_scaled example_parse integer_source = Inr integer_loaded \<and>
   rows integer_loaded ! 1 \<in> set (rows integer_loaded) \<and>
   cell_at (rows integer_loaded ! 1) ''energy_consumption_llm_total'' = Int64 3 \<and>
   cell_at (rows integer_loaded ! 1) ''measured_energy_joules'' = Int64 151479 \<and>
   cell_at (rows integer_loaded ! 1) ''final_energy_joules'' = Int64 151479 \<and>
   load_data_scaled example_parse example_source = Inr example_loaded \<and>
   rows example_loaded ! 0 \<in> set (rows example_loaded) \<and>
   cell_at (rows example_loaded ! 0) ''energy_consumption_llm_total'' = Str ''2'' \<and>
   example_parse ''2'' = Some (Inl 2) \<and>
   cell_at (rows example_loaded ! 0) ''measured_energy_joules'' = Num 100986 \<and>
   cell_at (rows example_loaded ! 0) ''final_energy_joules'' = Num 100986"
proof -
  have n0: "rows numeric_loaded ! 0 \<in> set (rows numeric_loaded)"
    and n1: "rows numeric_loaded ! 1 \<in> set (rows numeric_loaded)"
    unfolding numeric_loaded_def by code_simp+
  have raw0: "cell_at (rows numeric_loaded ! 0) ''energy_consumption_llm_total'' = Num (5 / 2)"
    and raw1: "cell_at (rows numeric_loaded ! 1) ''energy_consumption_llm_total'' = NaN"
    and dur1: "cell_at (rows numeric_loaded ! 1) ''total_duration'' = Num 1800000000000"
    unfolding numeric_loaded_def by code_simp+
  note t0 = final_energy_measured_else_estimated [OF numeric_loaded_ok n0]
  note t1 = final_energy_measured_else_estimated [OF numeric_loaded_ok n1]
  from t0 raw0 have "cell_at (rows numeric_loaded ! 0) ''measured_energy_joules'' =
        Num (5 / 2 * 50493) \<and>
      cell_at (rows numeric_loaded ! 0) ''final_energy_joules'' = Num (5 / 2 * 50493)"
    by blast
  then have v0: "cell_at (rows numeric_loaded ! 0) ''measured_energy_joules'' = Num (252465 / 2)"
    "cell_at (rows numeric_loaded ! 0) ''final_energy_joules'' = Num (252465 / 2)"
    by simp_all
  from t1 raw1 have m1: "cell_at (rows numeric_loaded ! 1) ''measured_energy_joules'' = NaN"
    and f1: "cell_at (rows numeric_loaded ! 1) ''final_energy_joules'' =
             cell_at (rows numeric_loaded ! 1) ''estimated_energy_joules''"
    by blast+
  from t1 have "cell_at (rows numeric_loaded ! 1) ''estimated_energy_joules'' =
      (case cell_at (rows numeric_loaded ! 1) ''total_duration'' of
         Num x \<Rightarrow> Num (x / 1000000000) | Int64 k \<Rightarrow> Num (of_int k / 1000000000)
       | _ \<Rightarrow> NaN)"
    by blast
  with dur1 have e1: "cell_at (rows numeric_loaded ! 1) ''estimated_energy_joules'' = Num 1800"
    by simp
  have i1: "rows integer_loaded ! 1 \<in> set (rows integer_loaded)"
    and rawi: "cell_at (rows integer_loaded ! 1) ''energy_consumption_llm_total'' = Int64 3"
    and mi: "cell_at (rows integer_loaded ! 1) ''measured_energy_joules'' = Int64 151479"
    and fi: "cell_at (rows integer_loaded ! 1) ''final_energy_joules'' = Int64 151479"
    unfolding integer_loaded_def by code_simp+
  have x0: "rows example_loaded ! 0 \<in> set (rows example_loaded)"
    and rawx: "cell_at (rows example_loaded ! 0) ''energy_consumption_llm_total'' = Str ''2''"
    and mx: "cell_at (rows example_loaded ! 0) ''measured_energy_joules'' = Num 100986"
    and fx: "cell_at (rows example_loaded ! 0) ''final_energy_joules'' = Num 100986"
    unfolding example_loaded_def by code_simp+
  have px: "example_parse ''2'' = Some (Inl 2)"
    by (simp add: example_parse_def)
  from numeric_loaded_ok n0 n1 raw0 v0 raw1 m1 e1 f1 integer_loaded_ok i1 rawi mi fi
    example_loaded_ok x0 rawx px mx fx
  show ?thesis
    by simp
qed

text \<open>
  C1 as stated fails on an int64 measured column: the single event of
  \<open>overflow_source\<close> has the measured value 200000000000000, whose product with 50493 is
  10098600000000000000; the loader returns \<^verbatim>\<open>measured_energy_joules\<close> and
  \<^verbatim>\<open>final_energy_joules\<close> equal to -8348144073709551616, the product less \<open>2^64\<close>.
\<close>

theorem measured_product_counterexample:
  "getcol overflow_source ''energy_consumption_llm_total'' = Inr [Int64 200000000000000] \<and>
   \<not> isl (load_data_scaled example_parse overflow_source) \<and>
   getcol (projr (load_data_scaled example_parse overflow_source)) ''measured_energy_joules'' =
     Inr [Int64 (- 8348144073709551616)] \<and>
   getcol (projr (load_data_scaled example_parse overflow_source)) ''final_energy_joules'' =
     Inr [Int64 (- 8348144073709551616)] \<and>
   (200000000000000 :: int) * 50493 = 10098600000000000000 \<and>
   (10098600000000000000 :: int) - 2 ^ 64 = - 8348144073709551616"
  by code_simp

text \<open>
  C6. Every row of a loaded table satisfies the unit conversions, each written out on the
  value it converts: a floating-point number \<open>x\<close> or an integer \<open>k\<close> gives the stated
  quotient or product as a floating-point number, and a missing value gives missing.
  In the scaled dashboard \<^verbatim>\<open>estimated_energy_joules\<close> is \<^verbatim>\<open>total_duration\<close> / 1e9,
  \<^verbatim>\<open>energy_kwh\<close> is \<^verbatim>\<open>final_energy_joules\<close> / 3.6e6, \<^verbatim>\<open>co2_kg\<close> is \<^verbatim>\<open>energy_kwh\<close> times
  0.475 and \<^verbatim>\<open>lightbulb_hours\<close> is \<^verbatim>\<open>final_energy_joules\<close> / 180000. In the first
  dashboard the same holds with \<^verbatim>\<open>energy_joules\<close>, itself \<^verbatim>\<open>total_duration\<close> / 1e9, as
  the joules value. (Numbers are reals here, so the equalities are exact.)
\<close>

theorem unit_conversions_hold_per_row:
  "(load_data_scaled p src = Inr df \<longrightarrow>
      (\<forall>r \<in> set (rows df).
         cell_at r ''estimated_energy_joules'' =
           (case cell_at r ''total_duration'' of
              Num x \<Rightarrow> Num (x / 1000000000) | Int64 k \<Rightarrow> Num (of_int k / 1000000000)
            | _ \<Rightarrow> NaN) \<and>
         cell_at r ''energy_kwh'' =
           (case cell_at r ''final_energy_joules'' of
              Num x \<Rightarrow> Num (x / 3600000) | Int64 k \<Rightarrow> Num (of_int k / 3600000)
            | _ \<Rightarrow> NaN) \<and>
         cell_at r ''co2_kg'' =
           (case cell_at r ''energy_kwh'' of
              Num x \<Rightarrow> Num (x * 0.475) | Int64 k \<Rightarrow> Num (of_int k * 0.475)
            | _ \<Rightarrow> NaN) \<and>
         cell_at r ''lightbulb_hours'' =
           (case cell_at r ''final_energy_joules'' of
              Num x \<Rightarrow> Num (x / 180000) | Int64 k \<Rightarrow> Num (of_int k / 180000)
            | _ \<Rightarrow> NaN))) \<and>
   (load_data_final src' = Inr df' \<longrightarrow>
      (\<forall>r \<in> set (rows df').
         cell_at r ''energy_joules'' =
           (case cell_at r ''total_duration'' of
              Num x \<Rightarrow> Num (x / 1000000000) | Int64 k \<Rightarrow> Num (of_int k / 1000000000)
            | _ \<Rightarrow> NaN) \<and>
         cell_at r ''energy_kwh'' =
           (case cell_at r ''energy_joules'' of
              Num x \<Rightarrow> Num (x / 3600000) | Int64 k \<Rightarrow> Num (of_int k / 3600000)
            | _ \<Rightarrow> NaN) \<and>
         cell_at r ''co2_kg'' =
           (case cell_at r ''energy_kwh'' of
              Num x \<Rightarrow> Num (x * 0.475) | Int64 k \<Rightarrow> Num (of_int k * 0.475)
            | _ \<Rightarrow> NaN) \<and>
         cell_at r ''lightbulb_hours'' =
           (case cell_at r ''energy_joules'' of
              Num x \<Rightarrow> Num (x / 180000) | Int64 k \<Rightarrow> Num (of_int k / 180000)
            | _ \<Rightarrow> NaN)))"
proof (intro conjI impI ballI)
  fix r
  assume l: "load_data_scaled p src = Inr df" and r: "r \<in> set (rows df)"
  note f = load_data_scaled_row [OF l r]
  show "cell_at r ''estimated_energy_joules'' =
           (case cell_at r ''total_duration'' of
              Num x \<Rightarrow> Num (x / 1000000000) | Int64 k \<Rightarrow> Num (of_int k / 1000000000)
            | _ \<Rightarrow> NaN)"
    by (rule div_scalar_value [OF f(2)])
  show "cell_at r ''energy_kwh'' =
           (case cell_at r ''final_energy_joules'' of
              Num x \<Rightarrow> Num (x / 3600000) | Int64 k \<Rightarrow> Num (of_int k / 3600000)
            | _ \<Rightarrow> NaN)"
    by (rule div_scalar_value [OF f(4)])
  show "cell_at r ''co2_kg'' =
           (case cell_at r ''energy_kwh'' of
              Num x \<Rightarrow> Num (x * 0.475) | Int64 k \<Rightarrow> Num (of_int k * 0.475)
            | _ \<Rightarrow> NaN)"
    by (rule mul_scalar_value [OF f(5)])
  show "cell_at r ''lightbulb_hours'' =
           (case cell_at r ''final_energy_joules'' of
              Num x \<Rightarrow> Num (x / 180000) | Int64 k \<Rightarrow> Num (of_int k / 180000)
            | _ \<Rightarrow> NaN)"
    using div_scalar_value [OF f(6)] by (simp split: cell.splits)
next
  fix r
  assume l: "load_data_final src' = Inr df'" and r: "r \<in> set (rows df')"
  note f = load_data_final_row [OF l r]
  show "cell_at r ''energy_joules'' =
           (case cell_at r ''total_duration'' of
              Num x \<Rightarrow> Num (x / 1000000000) | Int64 k \<Rightarrow> Num (of_int k / 1000000000)
            | _ \<Rightarrow> NaN)"
    by (rule div_scalar_value [OF f(1)])
  show "cell_at r ''energy_kwh'' =
           (case cell_at r ''energy_joules'' of
              Num x \<Rightarrow> Num (x / 3600000) | Int64 k \<Rightarrow> Num (of_int k / 3600000)
            | _ \<Rightarrow> NaN)"
    by (rule div_scalar_value [OF f(2)])
  show "cell_at r ''co2_kg'' =
           (case cell_at r ''energy_kwh'' of
              Num x \<Rightarrow> Num (x * 0.475) | Int64 k \<Rightarrow> Num (of_int k * 0.475)
            | _ \<Rightarrow> NaN)"
    by (rule mul_scalar_value [OF f(3)])
  show "cell_at r ''lightbulb_hours'' =
           (case cell_at r ''energy_joules'' of
              Num x \<Rightarrow> Num (x / 180000) | Int64 k \<Rightarrow> Num (of_int k / 180000)
            | _ \<Rightarrow> NaN)"
    using div_scalar_value [OF f(4)] by (simp split: cell.splits)
qed

theorem unit_conversions_hold_per_row_witness:
  "load_data_scaled example_parse numeric_source = Inr numeric_loaded \<and>
   load_data_final example_source = Inr example_loaded_final \<and>
   rows numeric_loaded ! 0 \<in> set (rows numeric_loaded) \<and>
   rows example_loaded_final ! 0 \<in> set (rows example_loaded_final) \<and>
   cell_at (rows numeric_loaded ! 0) ''total_duration'' = Num 3600000000000 \<and>
   cell_at (rows numeric_loaded ! 0) ''estimated_energy_joules'' = Num 3600 \<and>
   cell_at (rows numeric_loaded ! 0) ''final_energy_joules'' = Num (252465 / 2) \<and>
   cell_at (rows numeric_loaded ! 0) ''energy_kwh'' = Num (252465 / 7200000) \<and>
   cell_at (rows numeric_loaded ! 0) ''co2_kg'' = Num (252465 / 7200000 * 0.475) \<and>
   cell_at (rows numeric_loaded ! 0) ''lightbulb_hours'' = Num (252465 / 360000) \<and>
   cell_at (rows example_loaded_final ! 0) ''total_duration'' = Num 3600000000000 \<and>
   cell_at (rows example_loaded_final ! 0) ''energy_joules'' = Num 3600 \<and>
   cell_at (rows example_loaded_final ! 0) ''energy_kwh'' = Num (1 / 1000) \<and>
   cell_at (rows example_loaded_final ! 0) ''co2_kg'' = Num (1 / 1000 * 0.475) \<and>
   cell_at (rows example_loaded_final ! 0) ''lightbulb_hours'' = Num (1 / 50)"
proof -
  let ?r = "rows numeric_loaded ! 0" and ?s = "rows example_loaded_final ! 0"
  have r: "?r \<in> set (rows numeric_loaded)"
    and dr: "cell_at ?r ''total_duration'' = Num 3600000000000"
    and fr: "cell_at ?r ''final_energy_joules'' = Num (252465 / 2)"
    unfolding numeric_loaded_def by code_simp+
  have s: "?s \<in> set (rows example_loaded_final)"
    and ds: "cell_at ?s ''total_duration'' = Num 3600000000000"
    unfolding example_loaded_final_def by code_simp+
  note T = unit_conversions_hold_per_row [of example_parse numeric_source numeric_loaded
      example_source example_loaded_final]
  from T numeric_loaded_ok r have a:
    "cell_at ?r ''estimated_energy_joules'' =
       (case cell_at ?r ''total_duration'' of
          Num x \<Rightarrow> Num (x / 1000000000) | Int64 k \<Rightarrow> Num (of_int k / 1000000000)
        | _ \<Rightarrow> NaN)"
    "cell_at ?r ''energy_kwh'' =
       (case cell_at ?r ''final_energy_joules'' of
          Num x \<Rightarrow> Num (x / 3600000) | Int64 k \<Rightarrow> Num (of_int k / 3600000)
        | _ \<Rightarrow> NaN)"
    "cell_at ?r ''co2_kg'' =
       (case cell_at ?r ''energy_kwh'' of
          Num x \<Rightarrow> Num (x * 0.475) | Int64 k \<Rightarrow> Num (of_int k * 0.475)
        | _ \<Rightarrow> NaN)"
    "cell_at ?r ''lightbulb_hours'' =
       (case cell_at ?r ''final_energy_joules'' of
          Num x \<Rightarrow> Num (x / 180000) | Int64 k \<Rightarrow> Num (of_int k / 180000)
        | _ \<Rightarrow> NaN)"
    by blast+
  from T example_loaded_final_ok s have b:
    "cell_at ?s ''energy_joules'' =
       (case cell_at ?s ''total_duration'' of
          Num x \<Rightarrow> Num (x / 1000000000) | Int64 k \<Rightarrow> Num (of_int k / 1000000000)
        | _ \<Rightarrow> NaN)"
    "cell_at ?s ''energy_kwh'' =
       (case cell_at ?s ''energy_joules'' of
          Num x \<Rightarrow> Num (x / 3600000) | Int64 k \<Rightarrow> Num (of_int k / 3600000)
        | _ \<Rightarrow> NaN)"
    "cell_at ?s ''co2_kg'' =
       (case cell_at ?s ''energy_kwh'' of
          Num x \<Rightarrow> Num (x * 0.475) | Int64 k \<Rightarrow> Num (of_int k * 0.475)
        | _ \<Rightarrow> NaN)"
    "cell_at ?s ''lightbulb_hours'' =
       (case cell_at ?s ''energy_joules'' of
          Num x \<Rightarrow> Num (x / 180000) | Int64 k \<Rightarrow> Num (of_int k / 180000)
        | _ \<Rightarrow> NaN)"
    by blast+
  have er: "cell_at ?r ''estimated_energy_joules'' = Num 3600"
    using a(1) dr by simp
  have kr: "cell_at ?r ''energy_kwh'' = Num (252465 / 7200000)"
    using a(2) fr by simp
  have cr: "cell_at ?r ''co2_kg'' = Num (252465 / 7200000 * 0.475)"
    using a(3) kr by simp
  have lr: "cell_at ?r ''lightbulb_hours'' = Num (252465 / 360000)"
    using a(4) fr by simp
  have es: "cell_at ?s ''energy_joules'' = Num 3600"
    using b(1) ds by simp
  have ks: "cell_at ?s ''energy_kwh'' = Num (1 / 1000)"
    using b(2) es by simp
  have cs: "cell_at ?s ''co2_kg'' = Num (1 / 1000 * 0.475)"
    using b(3) ks by simp
  have ls: "cell_at ?s ''lightbulb_hours'' = Num (1 / 50)"
    using b(4) es by simp
  from numeric_loaded_ok example_loaded_final_ok r s dr er fr kr cr lr ds es ks cs ls
  show ?thesis
    by blast
qed

text \<open>
  C10, as the code has it. A loader assigns its derived columns by name, so a source
  column that bears one of those names is overwritten. Every other column of the source
  is unchanged, in its place and in every value; the row count is unchanged; and the
  derived columns the source lacked are appended in the order the loader assigns them.
\<close>

theorem loader_keeps_other_columns:
  "(load_data_final src = Inr df \<longrightarrow>
      columns df = columns src @ filter (\<lambda>k. k \<notin> set (columns src)) derived_final \<and>
      length (rows df) = length (rows src) \<and>
      (\<forall>k. k \<notin> set derived_final \<longrightarrow> getcol df k = getcol src k)) \<and>
   (load_data_scaled p src' = Inr df' \<longrightarrow>
      columns df' = columns src' @ filter (\<lambda>k. k \<notin> set (columns src')) derived_scaled \<and>
      length (rows df') = length (rows src') \<and>
      (\<forall>k. k \<notin> set derived_scaled \<longrightarrow> getcol df' k = getcol src' k))"
proof (intro conjI impI allI)
  assume l: "load_data_final src = Inr df"
  note k = keeps_load_data_final [OF l]
  have d: "distinct derived_final"
    by (simp add: derived_final_def)
  from k show "columns df = columns src @ filter (\<lambda>k. k \<notin> set (columns src)) derived_final"
    by (simp add: keeps_def fold_add_col [OF d])
  from k show "length (rows df) = length (rows src)"
    by (auto simp: keeps_def dest: list_all2_lengthD)
  show "getcol df k = getcol src k" if "k \<notin> set derived_final" for k
    using k that by (rule keeps_getcol)
next
  assume l: "load_data_scaled p src' = Inr df'"
  note k = keeps_load_data_scaled [OF l]
  have d: "distinct derived_scaled"
    by (simp add: derived_scaled_def)
  from k show "columns df' = columns src' @ filter (\<lambda>k. k \<notin> set (columns src')) derived_scaled"
    by (simp add: keeps_def fold_add_col [OF d])
  from k show "length (rows df') = length (rows src')"
    by (auto simp: keeps_def dest: list_all2_lengthD)
  show "getcol df' k = getcol src' k" if "k \<notin> set derived_scaled" for k
    using k that by (rule keeps_getcol)
qed

theorem loader_keeps_other_columns_witness:
  "load_data_final example_source = Inr example_loaded_final \<and>
   load_data_scaled example_parse example_source = Inr example_loaded \<and>
   ''device'' \<notin> set derived_final \<and> ''device'' \<notin> set derived_scaled \<and>
   getcol example_loaded_final ''device'' = getcol example_source ''device'' \<and>
   getcol example_loaded ''device'' = getcol example_source ''device'' \<and>
   length (rows example_loaded) = length (rows example_source)"
proof -
  have d: "''device'' \<notin> set derived_final" "''device'' \<notin> set derived_scaled"
    by (simp_all add: derived_final_def derived_scaled_def)
  show ?thesis
    using loader_keeps_other_columns [of example_source example_loaded_final example_parse
        example_source example_loaded]
      example_loaded_ok example_loaded_final_ok d
    by simp
qed

text \<open>
  C10 as stated fails: the source \<open>clash_source\<close> has a column \<^verbatim>\<open>energy_kwh\<close> holding 5;
  both loaders succeed and return the column holding 0.001, the duration-based estimate
  3600 J in kWh.
\<close>

theorem loader_overwrites_counterexample:
  "getcol clash_source ''energy_kwh'' = Inr [Num 5] \<and>
   \<not> isl (load_data_final clash_source) \<and>
   getcol (projr (load_data_final clash_source)) ''energy_kwh'' = Inr [Num (1 / 1000)] \<and>
   \<not> isl (load_data_scaled example_parse clash_source) \<and>
   getcol (projr (load_data_scaled example_parse clash_source)) ''energy_kwh'' =
     Inr [Num (1 / 1000)]"
  by code_simp

section \<open>The filter\<close>

lemma mask_rows_filter:
  "map fst (filter snd (zip xs (map2 (\<and>) (map P xs) (map Q xs)))) = filter (\<lambda>x. P x \<and> Q x) xs"
  by (induction xs) simp_all

lemma df_filtered_Inr:
  "df_filtered df sm sd = Inr f \<longleftrightarrow>
     ''model_name'' \<in> set (columns df) \<and> ''device'' \<in> set (columns df) \<and>
     f = df\<lparr>rows := filter (\<lambda>r. cell_at r ''model_name'' \<in> set sm \<and>
                                 cell_at r ''device'' \<in> set sd) (rows df)\<rparr>"
  by (auto simp: df_filtered_def andthen_Inr getcol_def mask_rows_def isin_def mask_rows_filter)

lemma device_options_Inr:
  "device_options df = Inr opts \<Longrightarrow> NaN \<notin> set opts"
  by (auto simp: device_options_def andthen_Inr unique_def dropna_def)

lemma filtered_device_not_missing:
  assumes "device_options df = Inr opts" and "set sd \<subseteq> set opts"
    and "df_filtered df sm sd = Inr f" and "r \<in> set (rows f)"
  shows "cell_at r ''device'' \<noteq> NaN"
proof -
  from assms(3,4) have "cell_at r ''device'' \<in> set sd"
    by (auto simp: df_filtered_Inr)
  with assms(1,2) show ?thesis
    using device_options_Inr by fastforce
qed

lemma example_options:
  "model_options example_loaded_final = Inr [Str ''A'', Str ''B'']"
  "device_options example_loaded_final = Inr [Str ''gpu0'']"
  unfolding example_loaded_final_def by code_simp+

text \<open>
  C8. Filtering a table, then filtering the result again with selections that contain the
  first ones, succeeds and returns the first result unchanged.
\<close>

theorem filter_idempotent_under_superset:
  assumes "df_filtered df selected_models selected_devices = Inr f"
    and "set selected_models \<subseteq> set models'" and "set selected_devices \<subseteq> set devices'"
  shows "df_filtered f models' devices' = Inr f"
proof -
  let ?P = "\<lambda>r. cell_at r ''model_name'' \<in> set selected_models \<and>
                 cell_at r ''device'' \<in> set selected_devices"
  let ?Q = "\<lambda>r. cell_at r ''model_name'' \<in> set models' \<and> cell_at r ''device'' \<in> set devices'"
  from assms(1) have c: "''model_name'' \<in> set (columns f)" "''device'' \<in> set (columns f)"
    and f: "rows f = filter ?P (rows df)"
    by (auto simp: df_filtered_Inr)
  from assms(2,3) have "filter ?Q (filter ?P (rows df)) = filter ?P (rows df)"
    by (intro filter_True) auto
  with f have "f\<lparr>rows := filter ?Q (rows f)\<rparr> = f"
    by simp
  with c show ?thesis
    by (simp add: df_filtered_Inr)
qed

theorem filter_idempotent_under_superset_witness:
  "df_filtered example_loaded_final [Str ''A''] [Str ''gpu0''] =
     Inr (projr (df_filtered example_loaded_final [Str ''A''] [Str ''gpu0''])) \<and>
   set [Str ''A''] \<subseteq> set [Str ''A'', Str ''B''] \<and>
   set [Str ''gpu0''] \<subseteq> set [Str ''gpu0''] \<and>
   df_filtered (projr (df_filtered example_loaded_final [Str ''A''] [Str ''gpu0'']))
     [Str ''A'', Str ''B''] [Str ''gpu0''] =
     Inr (projr (df_filtered example_loaded_final [Str ''A''] [Str ''gpu0'']))"
proof -
  have "\<not> isl (df_filtered example_loaded_final [Str ''A''] [Str ''gpu0''])"
    unfolding example_loaded_final_def by code_simp
  then have h: "df_filtered example_loaded_final [Str ''A''] [Str ''gpu0''] =
      Inr (projr (df_filtered example_loaded_final [Str ''A''] [Str ''gpu0'']))"
    by simp
  have m: "set [Str ''A''] \<subseteq> set [Str ''A'', Str ''B'']"
    by simp
  have d: "set [Str ''gpu0''] \<subseteq> set [Str ''gpu0'']"
    by simp
  from filter_idempotent_under_superset [OF h m d] h m d show ?thesis
    by blast
qed

text \<open>
  C9. The device options are the distinct device values that are not missing, and a
  selection is a part of the options. So whatever is selected, the select-all default
  included, no row of the filtered table has a missing device: the filtered table is the
  rows of the loaded table whose model and device are both selected, and every view
  reads that table.
\<close>

theorem filtered_rows_have_device:
  assumes "device_options df = Inr opts" and "set selected_devices \<subseteq> set opts"
    and "df_filtered df selected_models selected_devices = Inr f"
  shows "rows f = filter (\<lambda>r. cell_at r ''model_name'' \<in> set selected_models \<and>
                             cell_at r ''device'' \<in> set selected_devices) (rows df) \<and>
         (\<forall>r \<in> set (rows f). cell_at r ''device'' \<noteq> NaN) \<and>
         (\<forall>r \<in> set (rows df). cell_at r ''device'' = NaN \<longrightarrow> r \<notin> set (rows f))"
proof -
  have n: "\<forall>r \<in> set (rows f). cell_at r ''device'' \<noteq> NaN"
    using filtered_device_not_missing [OF assms] by blast
  from assms(3) have "rows f = filter (\<lambda>r. cell_at r ''model_name'' \<in> set selected_models \<and>
                             cell_at r ''device'' \<in> set selected_devices) (rows df)"
    by (simp add: df_filtered_Inr)
  with n show ?thesis
    by blast
qed

theorem filtered_rows_have_device_witness:
  "device_options example_loaded_final = Inr [Str ''gpu0''] \<and>
   set [Str ''gpu0''] \<subseteq> set [Str ''gpu0''] \<and>
   df_filtered example_loaded_final [Str ''A'', Str ''B''] [Str ''gpu0''] =
     Inr (projr (df_filtered example_loaded_final [Str ''A'', Str ''B''] [Str ''gpu0''])) \<and>
   cell_at (rows example_loaded_final ! 2) ''device'' = NaN \<and>
   rows example_loaded_final ! 2 \<in> set (rows example_loaded_final) \<and>
   rows example_loaded_final ! 2 \<notin>
     set (rows (projr (df_filtered example_loaded_final [Str ''A'', Str ''B''] [Str ''gpu0''])))"
proof -
  have "\<not> isl (df_filtered example_loaded_final [Str ''A'', Str ''B''] [Str ''gpu0''])"
    unfolding example_loaded_final_def by code_simp
  then have h: "df_filtered example_loaded_final [Str ''A'', Str ''B''] [Str ''gpu0''] =
      Inr (projr (df_filtered example_loaded_final [Str ''A'', Str ''B''] [Str ''gpu0'']))"
    by simp
  have s: "set [Str ''gpu0''] \<subseteq> set [Str ''gpu0'']"
    by simp
  have r: "rows example_loaded_final ! 2 \<in> set (rows example_loaded_final)"
    unfolding example_loaded_final_def by code_simp
  have n: "cell_at (rows example_loaded_final ! 2) ''device'' = NaN"
    unfolding example_loaded_final_def by code_simp
  from filtered_rows_have_device [OF example_options(2) s h] example_options(2) s h r n
  show ?thesis
    by blast
qed

section \<open>Unit conversion\<close>

lemma smap_Inr_id: "smap Inr s = Inr s"
  by (induction s) simp_all

lemma assign_copy:
  "assign dst src Inr df =
     (if src \<in> set (columns df) then Inr (setcol dst (map (\<lambda>r. cell_at r src) (rows df)) df)
      else Inl (KeyError [src]))"
  by (simp add: assign_def getcol_def andthen_def smap_Inr_id)

lemma cells_setcol:
  assumes "length s = length (rows df)"
  shows "map (\<lambda>r. cell_at r k) (rows (setcol dst s df)) =
           (if k = dst then s else map (\<lambda>r. cell_at r k) (rows df))"
proof -
  have "map (\<lambda>r. cell_at r k) (map2 (\<lambda>r v. AList.update dst v r) xs s) =
          (if k = dst then s else map (\<lambda>r. cell_at r k) xs)"
    if "length xs = length s" for xs :: "row list"
    using that by (induction xs s rule: list_induct2) (simp_all add: cell_at_update)
  with assms show ?thesis
    by (simp add: setcol_def)
qed

lemma length_rows_setcol:
  "length s = length (rows df) \<Longrightarrow> length (rows (setcol dst s df)) = length (rows df)"
  by (simp add: setcol_def)

lemma display_energy_passthrough:
  assumes "selected_unit_type \<notin> {''kwh'', ''co2'', ''bulb''}"
  shows "display_energy col selected_unit_type df =
           run [assign ''base_energy'' col Inr, assign ''display_energy'' ''base_energy'' Inr] df"
  using assms by (simp add: display_energy_def)

lemma copy_twice:
  assumes "col \<in> set (columns df)"
  shows "\<exists>df'. run [assign ''base_energy'' col Inr, assign ''display_energy'' ''base_energy'' Inr] df
           = Inr df' \<and> getcol df' ''display_energy'' = getcol df col"
proof -
  let ?d1 = "setcol ''base_energy'' (map (\<lambda>r. cell_at r col) (rows df)) df"
  let ?d2 = "setcol ''display_energy'' (map (\<lambda>r. cell_at r ''base_energy'') (rows ?d1)) ?d1"
  have b: "''base_energy'' \<in> set (columns ?d1)"
    by (simp add: setcol_def)
  have r: "run [assign ''base_energy'' col Inr, assign ''display_energy'' ''base_energy'' Inr] df
             = Inr ?d2"
    using assms b by (simp add: assign_copy)
  have "map (\<lambda>r. cell_at r ''display_energy'') (rows ?d2) = map (\<lambda>r. cell_at r col) (rows df)"
    by (simp add: cells_setcol length_rows_setcol)
  moreover have "''display_energy'' \<in> set (columns ?d2)"
    by (simp add: setcol_def)
  ultimately have "getcol ?d2 ''display_energy'' = getcol df col"
    using assms by (simp add: getcol_def)
  with r show ?thesis
    by blast
qed

text \<open>
  C5, as the code has it. The conversion tests the unit token against \<^verbatim>\<open>kwh\<close>, \<^verbatim>\<open>co2\<close>
  and \<^verbatim>\<open>bulb\<close>; every other token, \<^verbatim>\<open>raw\<close> or not, takes the final \<^verbatim>\<open>else\<close> branch. So
  for a token outside those three the conversion does what it does for \<^verbatim>\<open>raw\<close>: when the
  value column exists it succeeds and \<^verbatim>\<open>display_energy\<close> is a copy of the value column,
  and when the value column does not exist it fails with a KeyError for that column.
\<close>

theorem unknown_unit_passes_value_through:
  assumes "selected_unit_type \<notin> {''kwh'', ''co2'', ''bulb''}"
  shows "display_energy col selected_unit_type df = display_energy col ''raw'' df \<and>
         (col \<in> set (columns df) \<longrightarrow>
            (\<exists>df'. display_energy col selected_unit_type df = Inr df' \<and>
                   getcol df' ''display_energy'' = getcol df col)) \<and>
         (col \<notin> set (columns df) \<longrightarrow>
            display_energy col selected_unit_type df = Inl (KeyError [col]))"
proof (intro conjI impI)
  show "display_energy col selected_unit_type df = display_energy col ''raw'' df"
    using assms by (simp add: display_energy_passthrough)
  show "\<exists>df'. display_energy col selected_unit_type df = Inr df' \<and>
              getcol df' ''display_energy'' = getcol df col"
    if "col \<in> set (columns df)"
    using copy_twice [OF that] assms by (simp add: display_energy_passthrough)
  show "display_energy col selected_unit_type df = Inl (KeyError [col])"
    if "col \<notin> set (columns df)"
    using that assms by (simp add: display_energy_passthrough assign_copy)
qed

theorem unknown_unit_passes_value_through_witness:
  "''watts'' \<notin> {''kwh'', ''co2'', ''bulb''} \<and>
   ''final_energy_joules'' \<in> set (columns example_loaded) \<and>
   display_energy ''final_energy_joules'' ''watts'' example_loaded =
     display_energy ''final_energy_joules'' ''raw'' example_loaded \<and>
   (\<exists>df'. display_energy ''final_energy_joules'' ''watts'' example_loaded = Inr df' \<and>
          getcol df' ''display_energy'' = getcol example_loaded ''final_energy_joules'')"
proof -
  have u: "''watts'' \<notin> {''kwh'', ''co2'', ''bulb''}"
    by simp
  have c: "''final_energy_joules'' \<in> set (columns example_loaded)"
    unfolding example_loaded_def by code_simp
  from unknown_unit_passes_value_through [OF u, of "''final_energy_joules''" example_loaded] u c
  show ?thesis
    by blast
qed

text \<open>
  C5 as stated fails: with the token \<^verbatim>\<open>watts\<close> the conversion of the loaded example
  table raises nothing and returns \<^verbatim>\<open>display_energy\<close> equal to the joule values.
\<close>

theorem unknown_unit_counterexample:
  "''watts'' \<notin> {''raw'', ''kwh'', ''co2'', ''bulb''} \<and>
   \<not> isl (display_energy ''final_energy_joules'' ''watts'' example_loaded) \<and>
   getcol (projr (display_energy ''final_energy_joules'' ''watts'' example_loaded))
     ''display_energy'' = Inr [Num 100986, Num 3600, Num 7200]"
  unfolding example_loaded_def by code_simp

section \<open>Grouped sums\<close>

lemma sum_list_delta:
  fixes y :: real
  assumes "distinct ks"
  shows "(\<Sum>g\<leftarrow>ks. if a = g then y else 0) = (if a \<in> set ks then y else 0)"
  using assms by (induction ks) auto

lemma sum_list_zero_map: "(\<Sum>g\<leftarrow>ks. (0::real)) = 0"
  by (induction ks) simp_all

lemma sum_over_groups:
  fixes f :: "'a \<Rightarrow> real"
  assumes "distinct ks" and "\<forall>x \<in> set xs. key x \<in> set ks"
  shows "(\<Sum>g\<leftarrow>ks. sum_list (map f (filter (\<lambda>x. key x = g) xs))) = sum_list (map f xs)"
  using assms(2)
proof (induction xs)
  case Nil
  then show ?case by (simp add: sum_list_zero_map)
next
  case (Cons x xs)
  have "(\<Sum>g\<leftarrow>ks. sum_list (map f (filter (\<lambda>x. key x = g) (x # xs)))) =
        (\<Sum>g\<leftarrow>ks. (if key x = g then f x else 0) + sum_list (map f (filter (\<lambda>x. key x = g) xs)))"
    by (intro arg_cong [where f = sum_list] map_cong) auto
  also have "\<dots> = (\<Sum>g\<leftarrow>ks. if key x = g then f x else 0) +
                   (\<Sum>g\<leftarrow>ks. sum_list (map f (filter (\<lambda>x. key x = g) xs)))"
    by (simp add: sum_list_addf)
  also have "\<dots> = f x + sum_list (map f xs)"
    using Cons by (simp add: sum_list_delta [OF assms(1)])
  finally show ?case by simp
qed

lemma group_keys_props:
  "distinct (group_keys ks df)"
  "set (group_keys ks df) = key_of ks ` set (valid_rows ks df)"
  by (simp_all add: group_keys_def)

lemma groupby_sum_total:
  assumes "groupby_sum ks v df = Inr g"
  shows "sum_list (map snd g) = series_sum (map (\<lambda>r. cell_at r v) (valid_rows ks df))"
proof -
  from assms have g: "g = map (\<lambda>k. (k, series_sum (map (\<lambda>r. cell_at r v) (group_rows ks df k))))
                         (group_keys ks df)"
    by (simp add: groupby_sum_def split: if_splits)
  have "sum_list (map snd g) =
        (\<Sum>k\<leftarrow>group_keys ks df.
           sum_list (map (\<lambda>r. num_val (cell_at r v))
                      (filter (\<lambda>r. key_of ks r = k) (valid_rows ks df))))"
    by (simp add: g comp_def series_sum_def group_rows_def)
  also have "\<dots> = sum_list (map (\<lambda>r. num_val (cell_at r v)) (valid_rows ks df))"
    by (rule sum_over_groups) (simp_all add: group_keys_props)
  finally show ?thesis
    by (simp add: series_sum_def comp_def)
qed

lemma sum_list_sort_key:
  fixes h :: "'a \<Rightarrow> real"
  shows "sum_list (map h (sort_key k xs)) = sum_list (map h xs)"
proof -
  have "sum_list (map h (sort_key k xs)) = sum_mset (image_mset h (mset (sort_key k xs)))"
    by (metis mset_map sum_mset_sum_list)
  also have "\<dots> = sum_mset (image_mset h (mset xs))"
    by simp
  also have "\<dots> = sum_list (map h xs)"
    by (metis mset_map sum_mset_sum_list)
  finally show ?thesis .
qed

text \<open>
  C7. On a filtered table (the selection being a part of the device options), the values
  of the device-totals view add up to the total of the value column over the filtered
  table.
\<close>

theorem device_totals_conserve_total:
  assumes "device_options df = Inr opts" and "set selected_devices \<subseteq> set opts"
    and "df_filtered df selected_models selected_devices = Inr f"
    and "device_energy v f = Inr de" and "total_val v f = Inr t"
  shows "sum_list (map snd de) = t"
proof -
  from assms(4) obtain g where g: "groupby_sum [''device''] v f = Inr g"
    and de: "de = sort_key (\<lambda>(k, x). - x) g"
    by (auto simp: device_energy_def andthen_Inr)
  have "NaN \<noteq> cell_at r ''device''" if "r \<in> set (rows f)" for r
    using filtered_device_not_missing [OF assms(1-3) that] by (rule not_sym)
  then have "valid_rows [''device''] f = rows f"
    unfolding valid_rows_def by (intro filter_True) (simp add: key_of_def)
  with groupby_sum_total [OF g]
  have "sum_list (map snd g) = series_sum (map (\<lambda>r. cell_at r v) (rows f))"
    by simp
  moreover from assms(5) have "t = series_sum (map (\<lambda>r. cell_at r v) (rows f))"
    by (auto simp: total_val_def andthen_Inr getcol_def split: if_splits)
  ultimately show ?thesis
    by (simp add: de sum_list_sort_key)
qed

theorem device_totals_conserve_total_witness:
  "device_options example_loaded_final = Inr [Str ''gpu0''] \<and>
   set [Str ''gpu0''] \<subseteq> set [Str ''gpu0''] \<and>
   df_filtered example_loaded_final [Str ''A'', Str ''B''] [Str ''gpu0''] =
     Inr (projr (df_filtered example_loaded_final [Str ''A'', Str ''B''] [Str ''gpu0''])) \<and>
   device_energy ''energy_joules''
     (projr (df_filtered example_loaded_final [Str ''A'', Str ''B''] [Str ''gpu0''])) =
     Inr [([Str ''gpu0''], 7200)] \<and>
   total_val ''energy_joules''
     (projr (df_filtered example_loaded_final [Str ''A'', Str ''B''] [Str ''gpu0''])) = Inr 7200 \<and>
   sum_list (map snd [([Str ''gpu0''], 7200 :: real)]) = 7200"
proof -
  have "\<not> isl (df_filtered example_loaded_final [Str ''A'', Str ''B''] [Str ''gpu0''])"
    unfolding example_loaded_final_def by code_simp
  then have h: "df_filtered example_loaded_final [Str ''A'', Str ''B''] [Str ''gpu0''] =
      Inr (projr (df_filtered example_loaded_final [Str ''A'', Str ''B''] [Str ''gpu0'']))"
    by simp
  have s: "set [Str ''gpu0''] \<subseteq> set [Str ''gpu0'']"
    by simp
  have d: "device_energy ''energy_joules''
     (projr (df_filtered example_loaded_final [Str ''A'', Str ''B''] [Str ''gpu0''])) =
     Inr [([Str ''gpu0''], 7200)]"
    unfolding example_loaded_final_def by code_simp
  have t: "total_val ''energy_joules''
     (projr (df_filtered example_loaded_final [Str ''A'', Str ''B''] [Str ''gpu0''])) = Inr 7200"
    unfolding example_loaded_final_def by code_simp
  from device_totals_conserve_total [OF example_options(2) s h d t] example_options(2) s h d t
  show ?thesis
    by blast
qed

section \<open>The forecast\<close>

lemma map_of_map_key:
  "map_of (map (\<lambda>g. (g, f g)) ks) g = (if g \<in> set ks then Some (f g) else None)"
  by (induction ks) auto













section \<open>The heatmap pivot\<close>






lemma group_keys_pair:
  "set (group_keys [a, b] df) =
     {[cell_at r a, cell_at r b] | r. r \<in> set (rows df) \<and> cell_at r a \<noteq> NaN \<and> cell_at r b \<noteq> NaN}"
  by (auto simp: group_keys_props valid_rows_def key_of_def image_iff)

lemma pivot_table_Inr:
  assumes "pivot_table v idx col df = Inr T"
  shows "p_index T = sort (remdups (map (\<lambda>k. k ! 0) (group_keys [idx, col] df)))"
    and "p_columns T = sort (remdups (map (\<lambda>k. k ! 1) (group_keys [idx, col] df)))"
    and "p_data T =
           map (\<lambda>h. map (\<lambda>w. if [h, w] \<in> set (group_keys [idx, col] df)
                              then Num (series_sum (map (\<lambda>r. cell_at r v)
                                          (group_rows [idx, col] df [h, w])))
                              else NaN) (p_columns T)) (p_index T)"
proof -
  let ?K = "group_keys [idx, col] df"
  let ?S = "\<lambda>k. series_sum (map (\<lambda>r. cell_at r v) (group_rows [idx, col] df k))"
  from assms obtain g where g: "groupby_sum [idx, col] v df = Inr g"
    and T: "T = \<lparr>p_index = sort (remdups (map (\<lambda>(k, x). k ! 0) g)),
                 p_columns = sort (remdups (map (\<lambda>(k, x). k ! 1) g)),
                 p_data = map (\<lambda>h. map (\<lambda>w. case map_of g [h, w] of
                                                 None \<Rightarrow> NaN | Some x \<Rightarrow> Num x)
                                   (sort (remdups (map (\<lambda>(k, x). k ! 1) g))))
                            (sort (remdups (map (\<lambda>(k, x). k ! 0) g)))\<rparr>"
    by (auto simp: pivot_table_def andthen_Inr Let_def)
  from g have g': "g = map (\<lambda>k. (k, ?S k)) ?K"
    by (simp add: groupby_sum_def split: if_splits)
  have m: "map_of g k = (if k \<in> set ?K then Some (?S k) else None)" for k
    unfolding g' by (rule map_of_map_key)
  show "p_index T = sort (remdups (map (\<lambda>k. k ! 0) ?K))"
    by (simp add: T g' comp_def)
  show "p_columns T = sort (remdups (map (\<lambda>k. k ! 1) ?K))"
    by (simp add: T g' comp_def)
  show "p_data T =
           map (\<lambda>h. map (\<lambda>w. if [h, w] \<in> set ?K then Num (?S [h, w]) else NaN) (p_columns T))
             (p_index T)"
    unfolding T by (simp add: m)
qed

lemma pivot_table_sets:
  assumes "pivot_table v idx col df = Inr T"
  shows "set (p_index T) =
           {cell_at r idx | r. r \<in> set (rows df) \<and> cell_at r idx \<noteq> NaN \<and> cell_at r col \<noteq> NaN}"
    and "set (p_columns T) =
           {cell_at r col | r. r \<in> set (rows df) \<and> cell_at r idx \<noteq> NaN \<and> cell_at r col \<noteq> NaN}"
    and "sorted (p_index T)" and "distinct (p_index T)"
proof -
  show "set (p_index T) =
           {cell_at r idx | r. r \<in> set (rows df) \<and> cell_at r idx \<noteq> NaN \<and> cell_at r col \<noteq> NaN}"
    unfolding pivot_table_Inr(1) [OF assms] by (force simp: group_keys_pair image_iff)
  show "set (p_columns T) =
           {cell_at r col | r. r \<in> set (rows df) \<and> cell_at r idx \<noteq> NaN \<and> cell_at r col \<noteq> NaN}"
    unfolding pivot_table_Inr(2) [OF assms] by (force simp: group_keys_pair image_iff)
  show "sorted (p_index T)" "distinct (p_index T)"
    unfolding pivot_table_Inr(1) [OF assms] by simp_all
qed



lemma pivot_select_fails:
  assumes "\<not> (\<forall>n \<in> set names. Str n \<in> set (p_columns T))"
  shows "isl (pivot_select names T)"
proof -
  from assms have "filter (\<lambda>n. Str n \<notin> set (p_columns T)) names \<noteq> []"
    by (simp add: filter_empty_conv)
  then show ?thesis
    by (simp add: pivot_select_def)
qed






lemma pivot_Inr:
  "pivot v df = Inr P \<longleftrightarrow>
     (\<exists>df1 T. assign ''hour_of_day'' ''created_at'' dt_hour df = Inr df1 \<and>
        pivot_table v ''hour_of_day'' ''weekday'' df1 = Inr T \<and>
        pivot_select day_names (pivot_fillna 0 T) = Inr P)"
  by (simp add: pivot_def andthen_Inr)





section \<open>The views of an empty filtered table\<close>

text \<open>
  The pivot of a table without rows has no columns, so selecting the seven weekday
  columns raises: whatever the table's columns are, the heatmap step fails on it.
\<close>

lemma pivot_of_no_rows_raises:
  assumes "rows f = []"
  shows "isl (pivot v f)"
proof (cases "pivot v f")
  case (Inl e)
  then show ?thesis by simp
next
  case (Inr P)
  then obtain df1 T where df1: "assign ''hour_of_day'' ''created_at'' dt_hour f = Inr df1"
    and T: "pivot_table v ''hour_of_day'' ''weekday'' df1 = Inr T"
    and P: "pivot_select day_names (pivot_fillna 0 T) = Inr P"
    by (auto simp: pivot_Inr)
  from assign_Inr(3) [OF df1] assms have "rows df1 = []"
    by simp
  with pivot_table_sets(2) [OF T] have "p_columns (pivot_fillna 0 T) = []"
    by (simp add: pivot_fillna_def)
  then have "\<not> (\<forall>n \<in> set day_names. Str n \<in> set (p_columns (pivot_fillna 0 T)))"
    by (auto simp: day_names_def)
  from pivot_select_fails [OF this] P show ?thesis
    by simp
qed

text \<open>
  C2 at a failing input: the example table loaded by either dashboard and filtered with
  no model selected. The filtered table has no rows. The hourly series, the device totals,
  the cross table, the forecast and the scatter tables are empty, and the weekday-by-hour
  pivot raises KeyError for the seven weekday columns; so the run of either script ends
  with that KeyError at the heatmap.
\<close>

theorem empty_selection_views:
  "rows empty_table_final = [] \<and>
   hourly_model ''energy_joules'' empty_table_final = Inr [] \<and>
   device_energy ''energy_joules'' empty_table_final = Inr [] \<and>
   cross_data ''energy_joules'' empty_table_final = Inr [] \<and>
   forecast_df_final ''energy_joules'' empty_table_final = Inr [] \<and>
   fig_tokens ''energy_joules'' empty_table_final = Inr [] \<and>
   fig_complexity_final ''response_token_length'' ''energy_joules'' empty_table_final = Inr [] \<and>
   pivot ''energy_joules'' empty_table_final = Inl (KeyError day_names) \<and>
   rows empty_table_scaled = [] \<and>
   hourly_model ''display_energy'' empty_table_scaled = Inr [] \<and>
   cross_data ''display_energy'' empty_table_scaled = Inr [] \<and>
   forecast_df_scaled ''display_energy'' empty_table_scaled = Inr [] \<and>
   fig_tokens ''display_energy'' empty_table_scaled = Inr [] \<and>
   fig_complexity_scaled ''response_token_length'' ''device'' empty_table_scaled = Inr [] \<and>
   pivot ''display_energy'' empty_table_scaled = Inl (KeyError day_names) \<and>
   dashboard_final example_source [] [Str ''gpu0''] ''energy_joules'' ''response_token_length'' =
     Inl (KeyError day_names) \<and>
   dashboard_scaled example_parse example_source [] [Str ''gpu0''] ''final_energy_joules''
     ''raw'' ''response_token_length'' ''device'' = Inl (KeyError day_names)"
  unfolding empty_table_final_def empty_table_scaled_def by code_simp

end
